theory Spec2Isabelle
  imports Complex_Main "HOL-Library.Signed_Division"
begin

section \<open>Common conventions\<close>

text \<open>
  The development embeds two classes of the editor: \<^verbatim>\<open>DocumentManager\<close>
  (documentmanager.cpp) and \<^verbatim>\<open>CreateObjectTool\<close> (createobjecttool.cpp).
  Objects that the C++ code handles through pointers are identified by their address
  (a natural number, \<open>0\<close> being the null pointer).  A failed \<^verbatim>\<open>Q_ASSERT\<close>,
  an index outside a \<^verbatim>\<open>QList\<close> and a dereferenced null pointer are values of
  the type \<open>failure\<close>; every function that can hit one returns \<open>failure + 'a\<close>.
  A C++ \<^verbatim>\<open>int\<close> is an \<open>int\<close>; the integer arithmetic of the two classes is on
  list indices and on halving the size of a tile.  Coordinates (\<^verbatim>\<open>QPointF\<close>) are
  values of a type parameter \<open>'p\<close> that the development does not look into: their
  arithmetic is double precision arithmetic, which is not modelled, so every operation
  on them is a function of the environment.  A zoom factor and a z value are stored
  and copied, never computed with.
\<close>

datatype failure = AssertionFailed | IndexOutOfRange | NullPointer

type_synonym QPoint = "int \<times> int"

section \<open>QList and QTabWidget\<close>

text \<open>
  Indices are C++ \<^verbatim>\<open>int\<close>s; \<open>- 1\<close> is "none".  \<^verbatim>\<open>QList::at\<close> asserts
  that the index is in range, \<^verbatim>\<open>QList::indexOf\<close> returns the first position of
  a value or \<open>- 1\<close>, \<^verbatim>\<open>QList::removeAt\<close> ignores an index out of range and
  \<^verbatim>\<open>QList::move\<close> takes the element at \<open>from\<close> out and inserts it at \<open>to\<close>.
\<close>

definition validIndex :: "int \<Rightarrow> 'a list \<Rightarrow> bool" where
  "validIndex i xs = (0 \<le> i \<and> i < int (length xs))"

definition listAt :: "'a list \<Rightarrow> int \<Rightarrow> failure + 'a" where
  "listAt xs i = (if validIndex i xs then Inr (xs ! nat i) else Inl IndexOutOfRange)"

definition removeAt :: "int \<Rightarrow> 'a list \<Rightarrow> 'a list" where
  "removeAt i xs = (if validIndex i xs then take (nat i) xs @ drop (Suc (nat i)) xs else xs)"

definition listMove :: "int \<Rightarrow> int \<Rightarrow> 'a list \<Rightarrow> failure + 'a list" where
  "listMove from to xs =
     (if validIndex from xs \<and> validIndex to xs then
        (let rest = removeAt from xs
         in Inr (take (nat to) rest @ [xs ! nat from] @ drop (nat to) rest))
      else Inl AssertionFailed)"

fun indexFrom :: "('a \<Rightarrow> bool) \<Rightarrow> 'a list \<Rightarrow> int \<Rightarrow> int" where
  "indexFrom P [] i = - 1"
| "indexFrom P (x # xs) i = (if P x then i else indexFrom P xs (i + 1))"

text \<open>
  The tab widget holds one page per tab and the index of the current one.  As Qt
  documents it: the first tab added becomes current; \<^verbatim>\<open>setCurrentIndex\<close> ignores an
  index out of range; removing a tab keeps the current page current, and when the
  current tab itself is removed its right neighbour (the left one for the last tab)
  takes over; moving a tab keeps the current page current.  Tab texts and tool tips are
  not modelled.
\<close>

record 'w QTabWidget =
  widgets :: "'w list"
  currentIndex :: int

definition addTab :: "'w \<Rightarrow> 'w QTabWidget \<Rightarrow> 'w QTabWidget" where
  "addTab w t =
     \<lparr>widgets = widgets t @ [w],
      currentIndex = (if widgets t = [] then 0 else currentIndex t)\<rparr>"

definition setCurrentIndex :: "int \<Rightarrow> 'w QTabWidget \<Rightarrow> 'w QTabWidget" where
  "setCurrentIndex i t = (if validIndex i (widgets t) then t\<lparr>currentIndex := i\<rparr> else t)"

definition removeTab :: "int \<Rightarrow> 'w QTabWidget \<Rightarrow> 'w QTabWidget" where
  "removeTab i t =
     (if validIndex i (widgets t) then
        \<lparr>widgets = removeAt i (widgets t),
         currentIndex =
           (if i = currentIndex t then
              (if length (widgets t) = 1 then - 1
               else if i = int (length (widgets t)) - 1 then i - 1
               else i)
            else if i < currentIndex t then currentIndex t - 1
            else currentIndex t)\<rparr>
      else t)"

definition tabWidgetAt :: "'w QTabWidget \<Rightarrow> int \<Rightarrow> 'w option" where
  "tabWidgetAt t i = (if validIndex i (widgets t) then Some (widgets t ! nat i) else None)"

definition currentWidget :: "'w QTabWidget \<Rightarrow> 'w option" where
  "currentWidget t = tabWidgetAt t (currentIndex t)"

section \<open>The document manager\<close>

subsection \<open>Documents, views and the environment\<close>

text \<open>
  Of a \<^verbatim>\<open>MapDocument\<close> the manager reads the file name, the modified flag, the
  time of the last save, the current layer index, the number of layers of its map and
  the file name of the plugin that read it.  A registered document is the pair of its
  address and its state.
\<close>

type_synonym doc_ptr = nat
type_synonym QDateTime = int
type_synonym reader_id = nat

record MapDocument =
  fileName :: string
  isModified :: bool
  lastSaved :: QDateTime
  currentLayerIndex :: int
  layerCount :: int
  readerPluginFileName :: string

text \<open>
  A \<^verbatim>\<open>MapView\<close> has a zoom factor, two scroll bars and a scene showing one
  document.  A scroll bar is modelled by its slider position.  A
  \<^verbatim>\<open>MapViewContainer\<close> is the page of a tab: the view and the "file changed"
  warning below it.
\<close>

record MapView =
  zoomableScale :: real
  horizontalSliderPosition :: int
  verticalSliderPosition :: int
  mapSceneDocument :: doc_ptr

record MapViewContainer =
  mapView :: MapView
  fileChangedWarningVisible :: bool

text \<open>
  What the manager asks of the world outside: the file system (\<^verbatim>\<open>QFileInfo\<close>), the
  plugin manager, the loader \<^verbatim>\<open>MapDocument::load\<close> (the address and state of the new
  document, or an error text) and Qt's widgets (the state of a newly constructed view,
  the scroll position that centres a view on a pixel position, and the range, minimum
  and maximum, of each scroll bar of the view that shows a document at a zoom factor).
\<close>

record Environment =
  canonicalFilePath :: "string \<Rightarrow> string"
  lastModified :: "string \<Rightarrow> QDateTime"
  pluginByFileName :: "string \<Rightarrow> reader_id option"
  loadMapDocument :: "string \<Rightarrow> reader_id option \<Rightarrow> string + (doc_ptr \<times> MapDocument)"
  newMapView :: MapView
  centeredOn :: "real \<Rightarrow> real \<Rightarrow> int \<times> int"
  horizontalScrollRange :: "doc_ptr \<Rightarrow> real \<Rightarrow> int \<times> int"
  verticalScrollRange :: "doc_ptr \<Rightarrow> real \<Rightarrow> int \<times> int"

datatype emitted_signal = DocumentAboutToClose doc_ptr | ReloadError string

text \<open>
  Modelled from the spec: \<^verbatim>\<open>FileSystemWatcher\<close> (filesystemwatcher.cpp is not among
  the sources).  The spec keeps one subscription per unique file path among the open
  documents and keeps a path subscribed while another open document has it; the manager
  calls \<^verbatim>\<open>addPath\<close> once for every document it registers and \<^verbatim>\<open>removePath\<close> once
  for every document it closes.  So the watcher counts the requests per path, and a path
  is subscribed while its count is positive.
\<close>

type_synonym FileSystemWatcher = "string \<Rightarrow> nat"

definition addPath :: "string \<Rightarrow> FileSystemWatcher \<Rightarrow> FileSystemWatcher" where
  "addPath path w = w(path := Suc (w path))"

definition removePath :: "string \<Rightarrow> FileSystemWatcher \<Rightarrow> FileSystemWatcher" where
  "removePath path w = w(path := w path - 1)"


text \<open>
  The state of the manager: the documents in tab order, the tab widget with one
  container per document, the file system watcher and the signals emitted so far.  The
  manager owns its documents and containers, so a deleted one is one that the state no
  longer holds.  The selected tool, the scene holding it and the undo group (the slot
  \<^verbatim>\<open>currentIndexChanged\<close>) touch none of these fields and are left out.
\<close>

record DocumentManager =
  mDocuments :: "(doc_ptr \<times> MapDocument) list"
  mTabWidget :: "MapViewContainer QTabWidget"
  mFileSystemWatcher :: FileSystemWatcher
  emitted :: "emitted_signal list"

definition emptyManager :: DocumentManager where
  "emptyManager =
     \<lparr>mDocuments = [],
      mTabWidget = \<lparr>widgets = [], currentIndex = - 1\<rparr>,
      mFileSystemWatcher = (\<lambda>path. 0),
      emitted = []\<rparr>"

subsection \<open>Queries\<close>

definition currentDocument :: "DocumentManager \<Rightarrow> failure + (doc_ptr \<times> MapDocument) option" where
  "currentDocument m =
     (let index = currentIndex (mTabWidget m)
      in if index = - 1 then Inr None
         else case listAt (mDocuments m) index of
                Inl e \<Rightarrow> Inl e
              | Inr d \<Rightarrow> Inr (Some d))"

definition currentMapView :: "DocumentManager \<Rightarrow> MapView option" where
  "currentMapView m = map_option mapView (currentWidget (mTabWidget m))"

definition indexOfDocument :: "DocumentManager \<Rightarrow> doc_ptr \<Rightarrow> int" where
  "indexOfDocument m mapDocument = indexFrom (\<lambda>d. fst d = mapDocument) (mDocuments m) 0"

definition viewForDocument :: "DocumentManager \<Rightarrow> doc_ptr \<Rightarrow> failure + MapView option" where
  "viewForDocument m mapDocument =
     (let index = indexOfDocument m mapDocument
      in if index = - 1 then Inr None
         else case tabWidgetAt (mTabWidget m) index of
                None \<Rightarrow> Inl NullPointer
              | Some container \<Rightarrow> Inr (Some (mapView container)))"

definition findDocument :: "Environment \<Rightarrow> DocumentManager \<Rightarrow> string \<Rightarrow> int" where
  "findDocument env m name =
     (let canonical = canonicalFilePath env name
      in if canonical = [] then - 1
         else indexFrom (\<lambda>d. canonicalFilePath env (fileName (snd d)) = canonical)
                (mDocuments m) 0)"

subsection \<open>Operations\<close>

definition andThen :: "failure + 'a \<Rightarrow> ('a \<Rightarrow> failure + 'b) \<Rightarrow> failure + 'b" where
  "andThen r f = (case r of Inl e \<Rightarrow> Inl e | Inr x \<Rightarrow> f x)"

definition switchToDocument :: "int \<Rightarrow> DocumentManager \<Rightarrow> DocumentManager" where
  "switchToDocument index m = m\<lparr>mTabWidget := setCurrentIndex index (mTabWidget m)\<rparr>"

definition modifyCurrentMapView ::
  "(MapView \<Rightarrow> MapView) \<Rightarrow> DocumentManager \<Rightarrow> DocumentManager" where
  "modifyCurrentMapView f m =
     (case currentWidget (mTabWidget m) of
        None \<Rightarrow> m
      | Some container \<Rightarrow>
          m\<lparr>mTabWidget := (mTabWidget m)
               \<lparr>widgets := (widgets (mTabWidget m))
                  [nat (currentIndex (mTabWidget m)) :=
                     container\<lparr>mapView := f (mapView container)\<rparr>]\<rparr>\<rparr>)"

text \<open>
  \<^verbatim>\<open>Zoomable::setScale\<close> stores the zoom factor.
  \<^verbatim>\<open>QAbstractSlider::setSliderPosition\<close> bounds the position it is given by the
  range of the bar, with \<^verbatim>\<open>qBound (minimum, position, maximum)\<close>, which is
  \<^verbatim>\<open>qMax (minimum, qMin (maximum, position))\<close>.
\<close>

definition qBound :: "int \<Rightarrow> int \<Rightarrow> int \<Rightarrow> int" where
  "qBound minimum val maximum = max minimum (min maximum val)"

definition setScale :: "real \<Rightarrow> MapView \<Rightarrow> MapView" where
  "setScale scale v = v\<lparr>zoomableScale := scale\<rparr>"

definition setHorizontalSliderPosition :: "Environment \<Rightarrow> int \<Rightarrow> MapView \<Rightarrow> MapView" where
  "setHorizontalSliderPosition env position v =
     (let range = horizontalScrollRange env (mapSceneDocument v) (zoomableScale v)
      in v\<lparr>horizontalSliderPosition := qBound (fst range) position (snd range)\<rparr>)"

definition setVerticalSliderPosition :: "Environment \<Rightarrow> int \<Rightarrow> MapView \<Rightarrow> MapView" where
  "setVerticalSliderPosition env position v =
     (let range = verticalScrollRange env (mapSceneDocument v) (zoomableScale v)
      in v\<lparr>verticalSliderPosition := qBound (fst range) position (snd range)\<rparr>)"

definition centerViewOn ::
  "Environment \<Rightarrow> real \<Rightarrow> real \<Rightarrow> DocumentManager \<Rightarrow> failure + DocumentManager" where
  "centerViewOn env x y m =
     (case currentMapView m of
        None \<Rightarrow> Inr m
      | Some view \<Rightarrow>
          andThen (currentDocument m) (\<lambda>document.
            case document of
              None \<Rightarrow> Inl NullPointer
            | Some d \<Rightarrow>
                Inr (modifyCurrentMapView
                  (\<lambda>v. v\<lparr>horizontalSliderPosition := fst (centeredOn env x y),
                          verticalSliderPosition := snd (centeredOn env x y)\<rparr>) m)))"

definition addDocument ::
  "Environment \<Rightarrow> doc_ptr \<times> MapDocument \<Rightarrow> DocumentManager \<Rightarrow> failure + DocumentManager" where
  "addDocument env mapDocument m =
     (if fst mapDocument = 0 then Inl AssertionFailed
      else if fst mapDocument \<in> set (map fst (mDocuments m)) then Inl AssertionFailed
      else
        (let m1 = m\<lparr>mDocuments := mDocuments m @ [mapDocument]\<rparr>;
             m2 = (if fileName (snd mapDocument) \<noteq> []
                   then m1\<lparr>mFileSystemWatcher :=
                           addPath (fileName (snd mapDocument)) (mFileSystemWatcher m1)\<rparr>
                   else m1);
             view = (newMapView env)\<lparr>mapSceneDocument := fst mapDocument\<rparr>;
             container = \<lparr>mapView = view, fileChangedWarningVisible = False\<rparr>;
             documentIndex = int (length (mDocuments m2)) - 1;
             m3 = m2\<lparr>mTabWidget := addTab container (mTabWidget m2)\<rparr>
         in centerViewOn env 0 0 (switchToDocument documentIndex m3)))"

definition closeDocumentAt :: "int \<Rightarrow> DocumentManager \<Rightarrow> failure + DocumentManager" where
  "closeDocumentAt index m =
     andThen (listAt (mDocuments m) index) (\<lambda>mapDocument.
       let m1 = m\<lparr>emitted := emitted m @ [DocumentAboutToClose (fst mapDocument)]\<rparr>;
           m2 = m1\<lparr>mDocuments := removeAt index (mDocuments m1),
                   mTabWidget := removeTab index (mTabWidget m1)\<rparr>
       in Inr (if fileName (snd mapDocument) \<noteq> []
               then m2\<lparr>mFileSystemWatcher :=
                       removePath (fileName (snd mapDocument)) (mFileSystemWatcher m2)\<rparr>
               else m2))"

text \<open>
  \<^verbatim>\<open>MovableTabWidget::moveTab\<close> moves the tab of its tab bar and forwards the
  bar's signal \<^verbatim>\<open>tabMoved\<close>, to which the slot \<^verbatim>\<open>documentTabMoved\<close> is
  connected.  The tab bar ignores a move of a tab onto itself and indices out of range
  (no signal then).
\<close>

definition tabBarMoveTab :: "int \<Rightarrow> int \<Rightarrow> 'w QTabWidget \<Rightarrow> 'w QTabWidget option" where
  "tabBarMoveTab from to t =
     (if from = to then None
      else case listMove from to (widgets t) of
             Inl e \<Rightarrow> None
           | Inr ws \<Rightarrow>
               Some \<lparr>widgets = ws,
                     currentIndex =
                       (if currentIndex t = from then to
                        else if from < currentIndex t \<and> currentIndex t \<le> to
                          then currentIndex t - 1
                        else if to \<le> currentIndex t \<and> currentIndex t < from
                          then currentIndex t + 1
                        else currentIndex t)\<rparr>)"

definition documentTabMoved :: "int \<Rightarrow> int \<Rightarrow> DocumentManager \<Rightarrow> failure + DocumentManager" where
  "documentTabMoved from to m =
     andThen (listMove from to (mDocuments m)) (\<lambda>ds. Inr (m\<lparr>mDocuments := ds\<rparr>))"

definition moveTab :: "int \<Rightarrow> int \<Rightarrow> DocumentManager \<Rightarrow> failure + DocumentManager" where
  "moveTab from to m =
     (case tabBarMoveTab from to (mTabWidget m) of
        None \<Rightarrow> Inr m
      | Some t \<Rightarrow> documentTabMoved from to (m\<lparr>mTabWidget := t\<rparr>))"

definition setCurrentLayerIndex :: "doc_ptr \<Rightarrow> int \<Rightarrow> DocumentManager \<Rightarrow> DocumentManager" where
  "setCurrentLayerIndex mapDocument index m =
     m\<lparr>mDocuments :=
         map (\<lambda>d. if fst d = mapDocument
                  then (fst d, (snd d)\<lparr>currentLayerIndex := index\<rparr>) else d)
           (mDocuments m)\<rparr>"

text \<open>
  The text of the signal \<^verbatim>\<open>reloadError\<close>: the pattern \<^verbatim>\<open>"%1:\n\n%2"\<close> with the
  file name and the loader's error (as the untranslated pattern has it).
\<close>

definition reloadErrorText :: "string \<Rightarrow> string \<Rightarrow> string" where
  "reloadErrorText name err = name @ '':'' @ [CHR 0x0A, CHR 0x0A] @ err"

text \<open>
  The reader to reload a document with: the plugin that read it, when the document
  records one and the plugin manager still has it; otherwise none (the default format).
\<close>

definition readerFor :: "Environment \<Rightarrow> MapDocument \<Rightarrow> reader_id option" where
  "readerFor env oldDocument =
     (let readerPluginName = readerPluginFileName oldDocument
      in if readerPluginName \<noteq> [] then pluginByFileName env readerPluginName else None)"

definition reloadDocumentAt ::
  "Environment \<Rightarrow> int \<Rightarrow> DocumentManager \<Rightarrow> failure + (bool \<times> DocumentManager)" where
  "reloadDocumentAt env index m =
     andThen (listAt (mDocuments m) index) (\<lambda>oldDocument.
       let reader = readerFor env (snd oldDocument)
       in case loadMapDocument env (fileName (snd oldDocument)) reader of
            Inl err \<Rightarrow>
              Inr (False,
                   m\<lparr>emitted := emitted m @
                       [ReloadError (reloadErrorText (fileName (snd oldDocument)) err)]\<rparr>)
          | Inr newDocument \<Rightarrow>
              andThen (viewForDocument m (fst oldDocument)) (\<lambda>oldView.
                case oldView of
                  None \<Rightarrow> Inl NullPointer
                | Some view \<Rightarrow>
                    (let layerIndex = currentLayerIndex (snd oldDocument);
                         scale = zoomableScale view;
                         horizontalPosition = horizontalSliderPosition view;
                         verticalPosition = verticalSliderPosition view
                     in andThen (addDocument env newDocument m) (\<lambda>m1.
                        andThen (closeDocumentAt index m1) (\<lambda>m2.
                        andThen (moveTab (int (length (mDocuments m2)) - 1) index m2) (\<lambda>m3.
                          case currentMapView m3 of
                            None \<Rightarrow> Inl NullPointer
                          | Some newView \<Rightarrow>
                              (let m4 = modifyCurrentMapView
                                     (\<lambda>v. setVerticalSliderPosition env verticalPosition
                                            (setHorizontalSliderPosition env horizontalPosition
                                              (setScale scale v))) m3
                               in Inr (True,
                                    if layerIndex > 0 \<and> layerIndex < layerCount (snd newDocument)
                                    then setCurrentLayerIndex (fst newDocument) layerIndex m4
                                    else m4))))))))"

definition fileChanged ::
  "Environment \<Rightarrow> string \<Rightarrow> DocumentManager \<Rightarrow> failure + DocumentManager" where
  "fileChanged env name m =
     (let index = findDocument env m name
      in if index = - 1 then Inr m
         else
           andThen (listAt (mDocuments m) index) (\<lambda>document.
             if lastModified env name = lastSaved (snd document) then Inr m
             else if \<not> isModified (snd document) then
               andThen (reloadDocumentAt env index m) (\<lambda>r. Inr (snd r))
             else
               (case tabWidgetAt (mTabWidget m) index of
                  None \<Rightarrow> Inl NullPointer
                | Some container \<Rightarrow>
                    Inr (m\<lparr>mTabWidget := (mTabWidget m)
                          \<lparr>widgets := (widgets (mTabWidget m))
                             [nat index :=
                                container\<lparr>fileChangedWarningVisible := True\<rparr>]\<rparr>\<rparr>))))"

subsection \<open>Well-formed states and the state after a successful reload\<close>

text \<open>
  A state is well formed when no document is registered twice and every document has
  its tab.  \<open>reloaded\<close> is the state that a successful reload at position \<open>n\<close>
  leads to, written out; \<open>reloadDocumentAt_success\<close> proves it from the code.
\<close>

definition wellFormed :: "DocumentManager \<Rightarrow> bool" where
  "wellFormed m =
     (distinct (map fst (mDocuments m))
      \<and> length (widgets (mTabWidget m)) = length (mDocuments m))"

definition openedContainer :: "Environment \<Rightarrow> doc_ptr \<Rightarrow> MapViewContainer" where
  "openedContainer env p =
     \<lparr>mapView = (newMapView env)
        \<lparr>horizontalSliderPosition := fst (centeredOn env 0 0),
         verticalSliderPosition := snd (centeredOn env 0 0),
         mapSceneDocument := p\<rparr>,
      fileChangedWarningVisible = False\<rparr>"

definition watcherAfterReload ::
  "MapDocument \<Rightarrow> MapDocument \<Rightarrow> FileSystemWatcher \<Rightarrow> FileSystemWatcher" where
  "watcherAfterReload oldDocument newDocument w =
     (let w1 = (if fileName newDocument \<noteq> [] then addPath (fileName newDocument) w else w)
      in if fileName oldDocument \<noteq> [] then removePath (fileName oldDocument) w1 else w1)"

definition restoredContainer :: "Environment \<Rightarrow> MapView \<Rightarrow> doc_ptr \<Rightarrow> MapViewContainer" where
  "restoredContainer env oldView newDocument =
     \<lparr>mapView =
        \<lparr>zoomableScale = zoomableScale oldView,
         horizontalSliderPosition =
           qBound (fst (horizontalScrollRange env newDocument (zoomableScale oldView)))
             (horizontalSliderPosition oldView)
             (snd (horizontalScrollRange env newDocument (zoomableScale oldView))),
         verticalSliderPosition =
           qBound (fst (verticalScrollRange env newDocument (zoomableScale oldView)))
             (verticalSliderPosition oldView)
             (snd (verticalScrollRange env newDocument (zoomableScale oldView))),
         mapSceneDocument = newDocument\<rparr>,
      fileChangedWarningVisible = False\<rparr>"

definition restoredLayerIndex :: "MapDocument \<Rightarrow> MapDocument \<Rightarrow> int" where
  "restoredLayerIndex oldDocument newDocument =
     (if 0 < currentLayerIndex oldDocument
         \<and> currentLayerIndex oldDocument < layerCount newDocument
      then currentLayerIndex oldDocument
      else currentLayerIndex newDocument)"

definition reloaded ::
  "Environment \<Rightarrow> nat \<Rightarrow> doc_ptr \<times> MapDocument \<Rightarrow> DocumentManager \<Rightarrow> DocumentManager" where
  "reloaded env n newDocument m =
     \<lparr>mDocuments = (mDocuments m)
        [n := (fst newDocument,
               (snd newDocument)
                 \<lparr>currentLayerIndex :=
                    restoredLayerIndex (snd (mDocuments m ! n)) (snd newDocument)\<rparr>)],
      mTabWidget =
        \<lparr>widgets = (widgets (mTabWidget m))
           [n := restoredContainer env (mapView (widgets (mTabWidget m) ! n))
                   (fst newDocument)],
         currentIndex = int n\<rparr>,
      mFileSystemWatcher =
        watcherAfterReload (snd (mDocuments m ! n)) (snd newDocument) (mFileSystemWatcher m),
      emitted = emitted m @ [DocumentAboutToClose (fst (mDocuments m ! n))]\<rparr>"

text \<open>
  The state after \<^verbatim>\<open>fileChanged\<close> has shown the warning of the container at
  position \<open>n\<close>.
\<close>

definition warningShown :: "nat \<Rightarrow> DocumentManager \<Rightarrow> DocumentManager" where
  "warningShown n m =
     m\<lparr>mTabWidget := (mTabWidget m)
        \<lparr>widgets := (widgets (mTabWidget m))
           [n := (widgets (mTabWidget m) ! n)\<lparr>fileChangedWarningVisible := True\<rparr>]\<rparr>\<rparr>"

subsection \<open>An example\<close>

text \<open>
  Two maps exist on disk.  Both are open, \<open>b.tmx\<close> with unsaved changes and as the
  current document; \<open>a.tmx\<close> has been changed on disk after it was loaded, and
  \<open>b.tmx\<close> can no longer be read.
\<close>

definition documentA :: MapDocument where
  "documentA =
     \<lparr>fileName = ''/maps/a.tmx'', isModified = False, lastSaved = 100,
      currentLayerIndex = 1, layerCount = 3, readerPluginFileName = []\<rparr>"

definition documentB :: MapDocument where
  "documentB =
     \<lparr>fileName = ''/maps/b.tmx'', isModified = True, lastSaved = 100,
      currentLayerIndex = 0, layerCount = 1, readerPluginFileName = []\<rparr>"

definition documentA_on_disk :: MapDocument where
  "documentA_on_disk =
     \<lparr>fileName = ''/maps/a.tmx'', isModified = False, lastSaved = 200,
      currentLayerIndex = 0, layerCount = 2, readerPluginFileName = []\<rparr>"

definition exampleEnvironment :: Environment where
  "exampleEnvironment =
     \<lparr>canonicalFilePath =
        (\<lambda>path. if path = ''/maps/a.tmx'' \<or> path = ''/maps/b.tmx'' then path else []),
      lastModified = (\<lambda>path. 200),
      pluginByFileName = (\<lambda>plugin. None),
      loadMapDocument =
        (\<lambda>path reader. if path = ''/maps/a.tmx'' then Inr (3, documentA_on_disk)
                        else Inl ''File not found.''),
      newMapView =
        \<lparr>zoomableScale = 1, horizontalSliderPosition = 0, verticalSliderPosition = 0,
         mapSceneDocument = 0\<rparr>,
      centeredOn = (\<lambda>x y. (- 320, - 240)),
      horizontalScrollRange = (\<lambda>document scale. (- 1000, 1000)),
      verticalScrollRange = (\<lambda>document scale. (- 1000, 1000))\<rparr>"

definition exampleManager :: DocumentManager where
  "exampleManager =
     \<lparr>mDocuments = [(1, documentA), (2, documentB)],
      mTabWidget =
        \<lparr>widgets =
           [\<lparr>mapView = \<lparr>zoomableScale = 2, horizontalSliderPosition = 40,
                         verticalSliderPosition = 50, mapSceneDocument = 1\<rparr>,
             fileChangedWarningVisible = False\<rparr>,
            \<lparr>mapView = \<lparr>zoomableScale = 1 / 2, horizontalSliderPosition = 7,
                         verticalSliderPosition = 8, mapSceneDocument = 2\<rparr>,
             fileChangedWarningVisible = False\<rparr>],
         currentIndex = 1\<rparr>,
      mFileSystemWatcher =
        (\<lambda>path. if path = ''/maps/a.tmx'' \<or> path = ''/maps/b.tmx'' then 1 else 0),
      emitted = []\<rparr>"

text \<open>
  The same two maps when no file can be read any more.
\<close>

definition unreadableEnvironment :: Environment where
  "unreadableEnvironment =
     exampleEnvironment\<lparr>loadMapDocument := (\<lambda>path reader. Inl ''File not found.'')\<rparr>"



subsection \<open>Closing a document and the watched paths\<close>




definition closed :: "nat \<Rightarrow> DocumentManager \<Rightarrow> DocumentManager" where
  "closed n m =
     \<lparr>mDocuments = take n (mDocuments m) @ drop (Suc n) (mDocuments m),
      mTabWidget = removeTab (int n) (mTabWidget m),
      mFileSystemWatcher =
        (if fileName (snd (mDocuments m ! n)) \<noteq> []
         then removePath (fileName (snd (mDocuments m ! n))) (mFileSystemWatcher m)
         else mFileSystemWatcher m),
      emitted = emitted m @ [DocumentAboutToClose (fst (mDocuments m ! n))]\<rparr>"




subsection \<open>Sequences of open and close operations\<close>

text \<open>
  To open a document is to register a newly created document with
  \<^verbatim>\<open>addDocument\<close>; to close one is \<^verbatim>\<open>closeDocumentAt\<close>.  A run stops at the
  first failed assertion.  \<open>lookedUp\<close> holds of a run when every document was opened
  only after \<^verbatim>\<open>findDocument\<close> had found no open document for its file name (the
  caller's check; \<^verbatim>\<open>addDocument\<close> makes none).  \<open>uniquePaths\<close> says that no two
  open documents resolve to the same canonical path (the empty canonical path of a file
  that does not exist is no path).
\<close>

datatype operation = Open "doc_ptr \<times> MapDocument" | Close int

fun perform :: "Environment \<Rightarrow> operation \<Rightarrow> DocumentManager \<Rightarrow> failure + DocumentManager" where
  "perform env (Open mapDocument) m = addDocument env mapDocument m"
| "perform env (Close index) m = closeDocumentAt index m"

fun run :: "Environment \<Rightarrow> operation list \<Rightarrow> DocumentManager \<Rightarrow> failure + DocumentManager" where
  "run env [] m = Inr m"
| "run env (operation # operations) m =
     andThen (perform env operation m) (run env operations)"

fun lookedUp :: "Environment \<Rightarrow> operation list \<Rightarrow> DocumentManager \<Rightarrow> bool" where
  "lookedUp env [] m = True"
| "lookedUp env (operation # operations) m =
     ((case operation of
         Open mapDocument \<Rightarrow> findDocument env m (fileName (snd mapDocument)) = - 1
       | Close index \<Rightarrow> True)
      \<and> (case perform env operation m of
            Inl e \<Rightarrow> True
          | Inr m' \<Rightarrow> lookedUp env operations m'))"

definition canonicalPaths :: "Environment \<Rightarrow> DocumentManager \<Rightarrow> string list" where
  "canonicalPaths env m = map (\<lambda>d. canonicalFilePath env (fileName (snd d))) (mDocuments m)"

definition uniquePaths :: "Environment \<Rightarrow> DocumentManager \<Rightarrow> bool" where
  "uniquePaths env m =
     distinct (filter (\<lambda>canonical. canonical \<noteq> []) (canonicalPaths env m))"

section \<open>The object creation tool\<close>

subsection \<open>The edited map and the tool\<close>

text \<open>
  A \<^verbatim>\<open>MapObject\<close> has a position and knows the object group it is in.  Of an
  \<^verbatim>\<open>ObjectGroup\<close> the tool reads the visibility and changes the list of objects.
\<close>

type_synonym object_ptr = nat
type_synonym group_ptr = nat

record 'p MapObject =
  position :: "'p"
  objectGroup :: "group_ptr option"

text \<open>
  Modelled from the spec: the "editability" that the Map Model lets one query (spec,
  section 6).  No function of createobjecttool.cpp reads it; the field \<open>isEditable\<close>
  is there to state what the spec says about layers that are not editable.
\<close>

record ObjectGroup =
  objects :: "object_ptr list"
  isVisible :: bool
  isEditable :: bool

record MapObjectItem =
  mapObject :: object_ptr
  zValue :: real

datatype undo_command = AddMapObject group_ptr object_ptr

text \<open>
  What the tool reaches through \<^verbatim>\<open>mapDocument()\<close> and \<^verbatim>\<open>mapScene()\<close>: the
  object groups and the map objects (by address), the current layer when it is an object
  group (\<^verbatim>\<open>currentObjectGroup()\<close>), the items of the scene and the undo stack of the
  document.
\<close>

record 'p EditedMap =
  objectGroups :: "group_ptr \<Rightarrow> ObjectGroup option"
  mapObjects :: "object_ptr \<Rightarrow> 'p MapObject option"
  currentObjectGroup :: "group_ptr option"
  sceneItems :: "MapObjectItem list"
  undoStack :: "undo_command list"

record Tile =
  tileWidth :: int
  tileHeight :: int

datatype CreationMode = CreateTile | CreateGeometry

text \<open>
  The members of \<^verbatim>\<open>CreateObjectTool\<close> that its functions use, and the map it is
  active on.  A creation session is active when \<open>mNewMapObjectItem\<close> is set.
\<close>

record 'p CreateObjectTool =
  mNewMapObjectItem :: "MapObjectItem option"
  mOverlayPolygonItem :: "MapObjectItem option"
  mTile :: "Tile option"
  mMode :: CreationMode
  editedMap :: "'p EditedMap"

datatype MouseButton = LeftButton | RightButton | MiddleButton

record 'p QGraphicsSceneMouseEvent =
  button :: MouseButton
  controlModifier :: bool
  scenePos :: "'p"

datatype Key = Key_Enter | Key_Return | Key_Escape | Key_Other int

text \<open>
  What the tool asks of the world outside: the preferences, the renderer of the
  document, the arithmetic of \<^verbatim>\<open>QPointF\<close> (the sum of two points, a point times and
  divided by an \<^verbatim>\<open>int\<close>, \<^verbatim>\<open>toPoint\<close>, which rounds to a \<^verbatim>\<open>QPoint\<close>, and
  the conversion of a pair of \<^verbatim>\<open>int\<close>s to a \<^verbatim>\<open>QPointF\<close>), the factory
  \<^verbatim>\<open>createNewMapObject\<close> (pure virtual: the address and state of a new object, or
  none) and the handlers of the base class \<^verbatim>\<open>AbstractObjectTool\<close>, which is not
  among the sources; they act on the edited map and cannot reach the members of the
  tool.
\<close>

record 'p ToolEnvironment =
  snapToGrid :: bool
  snapToFineGrid :: bool
  gridFine :: int
  screenToTileCoords :: "'p \<Rightarrow> 'p"
  tileToPixelCoords :: "'p \<Rightarrow> 'p"
  pointPlus :: "'p \<Rightarrow> 'p \<Rightarrow> 'p"
  pointTimes :: "'p \<Rightarrow> int \<Rightarrow> 'p"
  pointDividedBy :: "'p \<Rightarrow> int \<Rightarrow> 'p"
  toPoint :: "'p \<Rightarrow> QPoint"
  fromPoint :: "QPoint \<Rightarrow> 'p"
  createNewMapObject :: "'p CreateObjectTool \<Rightarrow> (object_ptr \<times> 'p MapObject) option"
  abstractDeactivate :: "'p EditedMap \<Rightarrow> 'p EditedMap"
  abstractKeyPressed :: "Key \<Rightarrow> 'p EditedMap \<Rightarrow> 'p EditedMap"
  abstractMouseMoved :: "'p \<Rightarrow> bool \<Rightarrow> 'p EditedMap \<Rightarrow> 'p EditedMap"
  abstractMousePressed :: "'p QGraphicsSceneMouseEvent \<Rightarrow> 'p EditedMap \<Rightarrow> 'p EditedMap"

subsection \<open>The map model and the undo stack\<close>

text \<open>
  Modelled from the spec: \<^verbatim>\<open>ObjectGroup::addObject\<close> and
  \<^verbatim>\<open>ObjectGroup::removeObject\<close> (objectgroup.cpp is not among the sources), the
  "object-group add/remove of a map object" of the Map Model.  Adding appends the object
  to the group and makes the group the object's group; removing takes the object out of
  the list and clears the object's group.  An address that is not that of a live group
  or object is a null pointer.
\<close>

definition addObject ::
  "group_ptr \<Rightarrow> object_ptr \<Rightarrow> 'p EditedMap \<Rightarrow> failure + 'p EditedMap" where
  "addObject g ob em =
     (case objectGroups em g of
        None \<Rightarrow> Inl NullPointer
      | Some grp \<Rightarrow>
          (case mapObjects em ob of
             None \<Rightarrow> Inl NullPointer
           | Some obj \<Rightarrow>
               Inr (em\<lparr>objectGroups := (objectGroups em)
                          (g := Some (grp\<lparr>objects := objects grp @ [ob]\<rparr>)),
                        mapObjects := (mapObjects em)
                          (ob := Some (obj\<lparr>objectGroup := Some g\<rparr>))\<rparr>)))"

definition removeObject ::
  "group_ptr \<Rightarrow> object_ptr \<Rightarrow> 'p EditedMap \<Rightarrow> failure + 'p EditedMap" where
  "removeObject g ob em =
     (case objectGroups em g of
        None \<Rightarrow> Inl NullPointer
      | Some grp \<Rightarrow>
          (case mapObjects em ob of
             None \<Rightarrow> Inl NullPointer
           | Some obj \<Rightarrow>
               Inr (em\<lparr>objectGroups := (objectGroups em)
                          (g := Some (grp\<lparr>objects := remove1 ob (objects grp)\<rparr>)),
                        mapObjects := (mapObjects em)
                          (ob := Some (obj\<lparr>objectGroup := None\<rparr>))\<rparr>)))"

text \<open>
  Modelled from the spec: the command \<^verbatim>\<open>AddMapObject\<close> (addremovemapobject.cpp is
  not among the sources), the "single atomic add object command" whose push leaves the
  object in its group.  \<^verbatim>\<open>QUndoStack::push\<close> puts the command on the stack and
  performs it; performing \<^verbatim>\<open>AddMapObject\<close> adds the object to the group.
\<close>

definition push :: "undo_command \<Rightarrow> 'p EditedMap \<Rightarrow> failure + 'p EditedMap" where
  "push command em =
     (case command of
        AddMapObject g ob \<Rightarrow>
          addObject g ob (em\<lparr>undoStack := undoStack em @ [command]\<rparr>))"

definition deleteItem :: "MapObjectItem option \<Rightarrow> 'p EditedMap \<Rightarrow> 'p EditedMap" where
  "deleteItem item em =
     (case item of
        None \<Rightarrow> em
      | Some i \<Rightarrow> em\<lparr>sceneItems := remove1 i (sceneItems em)\<rparr>)"

subsection \<open>The functions of the tool\<close>

definition startNewMapObject ::
  "'p ToolEnvironment \<Rightarrow> 'p \<Rightarrow> group_ptr \<Rightarrow> 'p CreateObjectTool
   \<Rightarrow> failure + 'p CreateObjectTool" where
  "startNewMapObject env pos g tool =
     (if mNewMapObjectItem tool \<noteq> None then Inl AssertionFailed
      else case createNewMapObject env tool of
             None \<Rightarrow> Inr tool
           | Some newMapObject \<Rightarrow>
               (let em1 = (editedMap tool)
                      \<lparr>mapObjects := (mapObjects (editedMap tool))
                         (fst newMapObject := Some ((snd newMapObject)\<lparr>position := pos\<rparr>))\<rparr>
                in andThen (addObject g (fst newMapObject) em1) (\<lambda>em2.
                     let item = \<lparr>mapObject = fst newMapObject, zValue = 10000\<rparr>
                     in Inr (tool\<lparr>mNewMapObjectItem := Some item,
                                  editedMap := em2\<lparr>sceneItems := sceneItems em2 @ [item]\<rparr>\<rparr>))))"

definition clearNewMapObjectItem ::
  "'p CreateObjectTool \<Rightarrow> failure + (object_ptr \<times> 'p CreateObjectTool)" where
  "clearNewMapObjectItem tool =
     (case mNewMapObjectItem tool of
        None \<Rightarrow> Inl AssertionFailed
      | Some item \<Rightarrow>
          (let newMapObject = mapObject item
           in case mapObjects (editedMap tool) newMapObject of
                None \<Rightarrow> Inl NullPointer
              | Some obj \<Rightarrow>
                  (case objectGroup obj of
                     None \<Rightarrow> Inl NullPointer
                   | Some g \<Rightarrow>
                       andThen (removeObject g newMapObject (editedMap tool)) (\<lambda>em1.
                         let em2 = deleteItem (Some item) em1;
                             em3 = deleteItem (mOverlayPolygonItem tool) em2
                         in Inr (newMapObject,
                                 tool\<lparr>mNewMapObjectItem := None,
                                      mOverlayPolygonItem := None,
                                      editedMap := em3\<rparr>)))))"

definition cancelNewMapObject :: "'p CreateObjectTool \<Rightarrow> failure + 'p CreateObjectTool" where
  "cancelNewMapObject tool =
     andThen (clearNewMapObjectItem tool) (\<lambda>r.
       Inr ((snd r)\<lparr>editedMap := (editedMap (snd r))
                     \<lparr>mapObjects := (mapObjects (editedMap (snd r))) (fst r := None)\<rparr>\<rparr>))"

definition finishNewMapObject :: "'p CreateObjectTool \<Rightarrow> failure + 'p CreateObjectTool" where
  "finishNewMapObject tool =
     (case mNewMapObjectItem tool of
        None \<Rightarrow> Inl AssertionFailed
      | Some item \<Rightarrow>
          (let newMapObject = mapObject item
           in case mapObjects (editedMap tool) newMapObject of
                None \<Rightarrow> Inl NullPointer
              | Some obj \<Rightarrow>
                  andThen (clearNewMapObjectItem tool) (\<lambda>r.
                    case objectGroup obj of
                      None \<Rightarrow> Inl NullPointer
                    | Some g \<Rightarrow>
                        andThen (push (AddMapObject g newMapObject) (editedMap (snd r)))
                          (\<lambda>em. Inr ((snd r)\<lparr>editedMap := em\<rparr>)))))"

definition deactivate ::
  "'p ToolEnvironment \<Rightarrow> 'p CreateObjectTool \<Rightarrow> failure + 'p CreateObjectTool" where
  "deactivate env tool =
     andThen (if mNewMapObjectItem tool \<noteq> None then cancelNewMapObject tool else Inr tool)
       (\<lambda>tool1. Inr (tool1\<lparr>editedMap := abstractDeactivate env (editedMap tool1)\<rparr>))"

definition keyPressed ::
  "'p ToolEnvironment \<Rightarrow> Key \<Rightarrow> 'p CreateObjectTool \<Rightarrow> failure + 'p CreateObjectTool" where
  "keyPressed env key tool =
     (if (key = Key_Enter \<or> key = Key_Return) \<and> mNewMapObjectItem tool \<noteq> None
        then finishNewMapObject tool
      else if key = Key_Escape \<and> mNewMapObjectItem tool \<noteq> None
        then cancelNewMapObject tool
      else Inr (tool\<lparr>editedMap := abstractKeyPressed env key (editedMap tool)\<rparr>))"

text \<open>
  The hooks \<^verbatim>\<open>mouseMovedWhileCreatingObject\<close>,
  \<^verbatim>\<open>mousePressedWhileCreatingObject\<close> and
  \<^verbatim>\<open>mouseReleasedWhileCreatingObject\<close> do nothing in this class.
\<close>

definition mouseMoved ::
  "'p ToolEnvironment \<Rightarrow> 'p \<Rightarrow> bool \<Rightarrow> 'p CreateObjectTool
   \<Rightarrow> failure + 'p CreateObjectTool" where
  "mouseMoved env pos control tool =
     Inr (tool\<lparr>editedMap := abstractMouseMoved env pos control (editedMap tool)\<rparr>)"

definition mouseReleased ::
  "'p ToolEnvironment \<Rightarrow> 'p QGraphicsSceneMouseEvent \<Rightarrow> 'p CreateObjectTool
   \<Rightarrow> failure + 'p CreateObjectTool" where
  "mouseReleased env event tool = Inr tool"

text \<open>
  The snapping block of \<^verbatim>\<open>mousePressed\<close> (lines 151 to 156): to the fine grid
  when that is asked for (times \<^verbatim>\<open>gridFine\<close>, \<^verbatim>\<open>toPoint\<close>, divided by
  \<^verbatim>\<open>gridFine\<close>), else to whole tiles when that is asked for (\<^verbatim>\<open>toPoint\<close>), else
  not at all.  A \<^verbatim>\<open>QPoint\<close> assigned to a \<^verbatim>\<open>QPointF\<close> is converted.
\<close>

definition snapTileCoords :: "'p ToolEnvironment \<Rightarrow> bool \<Rightarrow> bool \<Rightarrow> 'p \<Rightarrow> 'p" where
  "snapTileCoords env toFineGrid toGrid tileCoords =
     (if toFineGrid then
        pointDividedBy env
          (fromPoint env (toPoint env (pointTimes env tileCoords (gridFine env))))
          (gridFine env)
      else if toGrid then fromPoint env (toPoint env tileCoords)
      else tileCoords)"

definition mousePressed ::
  "'p ToolEnvironment \<Rightarrow> 'p QGraphicsSceneMouseEvent \<Rightarrow> 'p CreateObjectTool
   \<Rightarrow> failure + 'p CreateObjectTool" where
  "mousePressed env event tool =
     (let toGrid = (if controlModifier event then \<not> snapToGrid env else snapToGrid env);
          toFineGrid = (if controlModifier event then False else snapToFineGrid env)
      in if mNewMapObjectItem tool \<noteq> None then Inr tool
         else if button event \<noteq> LeftButton
           then Inr (tool\<lparr>editedMap := abstractMousePressed env event (editedMap tool)\<rparr>)
         else
           (case currentObjectGroup (editedMap tool) of
              None \<Rightarrow> Inr tool
            | Some g \<Rightarrow>
                (case objectGroups (editedMap tool) g of
                   None \<Rightarrow> Inl NullPointer
                 | Some grp \<Rightarrow>
                     if \<not> isVisible grp then Inr tool
                     else if mMode tool = CreateTile \<and> mTile tool = None then Inr tool
                     else
                       (let tileCoords =
                              (case (mMode tool, mTile tool) of
                                 (CreateTile, Some tile) \<Rightarrow>
                                   screenToTileCoords env
                                     (pointPlus env (scenePos event)
                                        (fromPoint env
                                           ((- tileWidth tile) sdiv 2, tileHeight tile sdiv 2)))
                               | _ \<Rightarrow> screenToTileCoords env (scenePos event));
                            snapped = snapTileCoords env toFineGrid toGrid tileCoords;
                            pixelCoords = tileToPixelCoords env snapped
                        in startNewMapObject env pixelCoords g tool))))"

subsection \<open>Events\<close>

text \<open>
  The events that the scene delivers to the tool, each to its handler.  The base class
  keeps the undo stack when none of its handlers changes the undo stack of the document
  (what they do is outside the sources).
\<close>

datatype 'p tool_event =
    KeyPressedEvent Key
  | MouseMovedEvent "'p" bool
  | MousePressedEvent "'p QGraphicsSceneMouseEvent"
  | MouseReleasedEvent "'p QGraphicsSceneMouseEvent"
  | DeactivateEvent

fun handle ::
  "'p ToolEnvironment \<Rightarrow> 'p tool_event \<Rightarrow> 'p CreateObjectTool
   \<Rightarrow> failure + 'p CreateObjectTool" where
  "handle env (KeyPressedEvent key) tool = keyPressed env key tool"
| "handle env (MouseMovedEvent pos control) tool = mouseMoved env pos control tool"
| "handle env (MousePressedEvent event) tool = mousePressed env event tool"
| "handle env (MouseReleasedEvent event) tool = mouseReleased env event tool"
| "handle env DeactivateEvent tool = deactivate env tool"

definition baseKeepsUndoStack :: "'p ToolEnvironment \<Rightarrow> bool" where
  "baseKeepsUndoStack env =
     ((\<forall>em. undoStack (abstractDeactivate env em) = undoStack em)
      \<and> (\<forall>key em. undoStack (abstractKeyPressed env key em) = undoStack em)
      \<and> (\<forall>pos control em. undoStack (abstractMouseMoved env pos control em) = undoStack em)
      \<and> (\<forall>event em. undoStack (abstractMousePressed env event em) = undoStack em))"

subsection \<open>A creation session, written out\<close>

text \<open>
  \<open>newObjectFor\<close> describes a tool without a session, a live object group and the
  address of an object that does not exist yet: it is in no list of the group, no item
  of the scene shows it and no object lives at it.  \<open>started\<close> is the state after
  \<^verbatim>\<open>startNewMapObject\<close> has put such an object into the group, and \<open>committed\<close>
  the state after \<^verbatim>\<open>finishNewMapObject\<close>; the lemmas \<open>startNewMapObject_started\<close>
  and \<open>finish_started\<close> prove both from the code.
\<close>

definition newObjectFor ::
  "'p CreateObjectTool \<Rightarrow> group_ptr \<Rightarrow> ObjectGroup \<Rightarrow> object_ptr \<Rightarrow> bool" where
  "newObjectFor tool g grp ob =
     (mNewMapObjectItem tool = None \<and> mOverlayPolygonItem tool = None
      \<and> objectGroups (editedMap tool) g = Some grp
      \<and> mapObjects (editedMap tool) ob = None
      \<and> ob \<notin> set (objects grp)
      \<and> (\<forall>item \<in> set (sceneItems (editedMap tool)). mapObject item \<noteq> ob))"

definition started ::
  "'p \<Rightarrow> group_ptr \<Rightarrow> ObjectGroup \<Rightarrow> object_ptr \<times> 'p MapObject \<Rightarrow> 'p CreateObjectTool
   \<Rightarrow> 'p CreateObjectTool" where
  "started pos g grp newMapObject tool =
     tool\<lparr>mNewMapObjectItem := Some \<lparr>mapObject = fst newMapObject, zValue = 10000\<rparr>,
          editedMap := (editedMap tool)
            \<lparr>objectGroups := (objectGroups (editedMap tool))
               (g := Some (grp\<lparr>objects := objects grp @ [fst newMapObject]\<rparr>)),
             mapObjects := (mapObjects (editedMap tool))
               (fst newMapObject :=
                  Some ((snd newMapObject)\<lparr>position := pos, objectGroup := Some g\<rparr>)),
             sceneItems := sceneItems (editedMap tool)
               @ [\<lparr>mapObject = fst newMapObject, zValue = 10000\<rparr>]\<rparr>\<rparr>"

definition committed ::
  "'p \<Rightarrow> group_ptr \<Rightarrow> ObjectGroup \<Rightarrow> object_ptr \<times> 'p MapObject \<Rightarrow> 'p CreateObjectTool
   \<Rightarrow> 'p CreateObjectTool" where
  "committed pos g grp newMapObject tool =
     tool\<lparr>editedMap := (editedMap tool)
            \<lparr>objectGroups := (objectGroups (editedMap tool))
               (g := Some (grp\<lparr>objects := objects grp @ [fst newMapObject]\<rparr>)),
             mapObjects := (mapObjects (editedMap tool))
               (fst newMapObject :=
                  Some ((snd newMapObject)\<lparr>position := pos, objectGroup := Some g\<rparr>)),
             undoStack := undoStack (editedMap tool) @ [AddMapObject g (fst newMapObject)]\<rparr>\<rparr>"

subsection \<open>An example\<close>

text \<open>
  A tool for free geometry on a map with one object group, which is visible, empty and
  not editable; tiles are 32 pixels wide and high, and only snapping to the grid is on.
  The press is at the scene position \<open>(100, 100)\<close>, in tile \<open>(3, 3)\<close>.  Coordinates
  are pairs of numbers; on the numbers of the example (\<open>100\<close>, \<open>3.125\<close>, \<open>3\<close>,
  \<open>96\<close>) double precision arithmetic is exact, and the environment computes with
  them as the numbers they are.
\<close>

definition exampleGroup :: ObjectGroup where
  "exampleGroup = \<lparr>objects = [], isVisible = True, isEditable = False\<rparr>"

definition exampleObject :: "object_ptr \<times> (real \<times> real) MapObject" where
  "exampleObject = (7, \<lparr>position = (0, 0), objectGroup = None\<rparr>)"

definition exampleToolEnvironment :: "(real \<times> real) ToolEnvironment" where
  "exampleToolEnvironment =
     \<lparr>snapToGrid = True, snapToFineGrid = False, gridFine = 4,
      screenToTileCoords = (\<lambda>p. (fst p / 32, snd p / 32)),
      tileToPixelCoords = (\<lambda>p. (fst p * 32, snd p * 32)),
      pointPlus = (\<lambda>p q. (fst p + fst q, snd p + snd q)),
      pointTimes = (\<lambda>p c. (fst p * real_of_int c, snd p * real_of_int c)),
      pointDividedBy = (\<lambda>p c. (fst p / real_of_int c, snd p / real_of_int c)),
      toPoint = (\<lambda>p. (\<lfloor>fst p + 1 / 2\<rfloor>, \<lfloor>snd p + 1 / 2\<rfloor>)),
      fromPoint = (\<lambda>p. (real_of_int (fst p), real_of_int (snd p))),
      createNewMapObject = (\<lambda>tool. Some exampleObject),
      abstractDeactivate = (\<lambda>em. em),
      abstractKeyPressed = (\<lambda>key em. em),
      abstractMouseMoved = (\<lambda>pos control em. em),
      abstractMousePressed = (\<lambda>event em. em)\<rparr>"

definition exampleTool :: "(real \<times> real) CreateObjectTool" where
  "exampleTool =
     \<lparr>mNewMapObjectItem = None, mOverlayPolygonItem = None, mTile = None,
      mMode = CreateGeometry,
      editedMap =
        \<lparr>objectGroups = (\<lambda>g. if g = 1 then Some exampleGroup else None),
         mapObjects = (\<lambda>ob. None),
         currentObjectGroup = Some 1,
         sceneItems = [],
         undoStack = []\<rparr>\<rparr>"

definition examplePress :: "(real \<times> real) QGraphicsSceneMouseEvent" where
  "examplePress = \<lparr>button = LeftButton, controlModifier = False, scenePos = (100, 100)\<rparr>"

section \<open>Properties of the document manager\<close>

subsection \<open>Lists and tabs\<close>

lemma validIndex_nat: "validIndex i xs \<Longrightarrow> nat i < length xs \<and> int (nat i) = i"
  unfolding validIndex_def by linarith

lemma validIndex_int: "validIndex (int n) xs = (n < length xs)"
  by (simp add: validIndex_def)

lemma removeAt_int: "n < length xs \<Longrightarrow> removeAt (int n) xs = take n xs @ drop (Suc n) xs"
  by (simp add: removeAt_def validIndex_def)

lemma length_removeAt: "n < length xs \<Longrightarrow> length (removeAt (int n) xs) = length xs - 1"
  by (simp add: removeAt_int)

lemma removeAt_append_last:
  "n < length xs \<Longrightarrow> removeAt (int n) (xs @ [x]) = removeAt (int n) xs @ [x]"
  by (simp add: removeAt_def validIndex_def)

lemma removeAt_last: "removeAt (int (length xs)) (xs @ [x]) = xs"
  by (simp add: removeAt_def validIndex_def)

lemma replace_by_move:
  assumes "Suc n < length xs"
  shows "listMove (int (length xs) - 1) (int n) (removeAt (int n) xs @ [x])
         = Inr (xs[n := x])"
proof -
  let ?r = "removeAt (int n) xs"
  have len: "Suc (length ?r) = length xs" using assms by (simp add: removeAt_int)
  then have frm: "int (length xs) - 1 = int (length ?r)" by linarith
  have v1: "validIndex (int (length ?r)) (?r @ [x])" by (simp add: validIndex_def)
  have v2: "validIndex (int n) (?r @ [x])" using assms len by (simp add: validIndex_def)
  have "take n ?r @ [x] @ drop n ?r = xs[n := x]"
    using assms by (simp add: removeAt_int upd_conv_take_nth_drop min_def)
  then show ?thesis
    unfolding frm using v1 v2 by (simp add: listMove_def removeAt_last)
qed

lemma replace_last:
  assumes "Suc n = length xs"
  shows "removeAt (int n) xs @ [x] = xs[n := x]"
  using assms by (simp add: removeAt_int upd_conv_take_nth_drop)

lemma addDocument_result:
  assumes "length (widgets (mTabWidget m)) = length (mDocuments m)"
    and "fst d \<noteq> 0" and "fst d \<notin> set (map fst (mDocuments m))"
  shows "addDocument env d m =
     Inr \<lparr>mDocuments = mDocuments m @ [d],
          mTabWidget = \<lparr>widgets = widgets (mTabWidget m) @ [openedContainer env (fst d)],
                        currentIndex = int (length (mDocuments m))\<rparr>,
          mFileSystemWatcher =
            (if fileName (snd d) \<noteq> [] then addPath (fileName (snd d)) (mFileSystemWatcher m)
             else mFileSystemWatcher m),
          emitted = emitted m\<rparr>"
  using assms(2,3) assms(1)[symmetric]
  by (simp add: addDocument_def Let_def switchToDocument_def addTab_def setCurrentIndex_def
      validIndex_def centerViewOn_def currentMapView_def currentWidget_def tabWidgetAt_def
      currentDocument_def listAt_def andThen_def modifyCurrentMapView_def openedContainer_def)

lemma closeDocumentAt_result:
  assumes "n < length (mDocuments m)"
  shows "closeDocumentAt (int n) m =
     Inr \<lparr>mDocuments = removeAt (int n) (mDocuments m),
          mTabWidget = removeTab (int n) (mTabWidget m),
          mFileSystemWatcher =
            (if fileName (snd (mDocuments m ! n)) \<noteq> []
             then removePath (fileName (snd (mDocuments m ! n))) (mFileSystemWatcher m)
             else mFileSystemWatcher m),
          emitted = emitted m @ [DocumentAboutToClose (fst (mDocuments m ! n))]\<rparr>"
  using assms
  by (simp add: closeDocumentAt_def listAt_def validIndex_def andThen_def Let_def)

lemma indexFrom_distinct:
  "distinct (map f xs) \<Longrightarrow> n < length xs \<Longrightarrow>
   indexFrom (\<lambda>d. f d = f (xs ! n)) xs k = k + int n"
proof (induction xs arbitrary: n k)
  case Nil
  then show ?case by simp
next
  case (Cons x xs)
  show ?case
  proof (cases n)
    case 0
    then show ?thesis by simp
  next
    case (Suc j)
    with Cons.prems have "f x \<noteq> f (xs ! j)" and "distinct (map f xs)" and "j < length xs"
      by auto
    with Cons.IH [of j "k + 1"] Suc show ?thesis by simp
  qed
qed

lemma viewForDocument_at:
  assumes "wellFormed m" and "n < length (mDocuments m)"
  shows "viewForDocument m (fst (mDocuments m ! n))
         = Inr (Some (mapView (widgets (mTabWidget m) ! n)))"
proof -
  have "indexOfDocument m (fst (mDocuments m ! n)) = int n"
    using assms indexFrom_distinct [of fst "mDocuments m" n 0]
    by (simp add: indexOfDocument_def wellFormed_def)
  then show ?thesis
    using assms by (simp add: viewForDocument_def tabWidgetAt_def validIndex_def wellFormed_def)
qed

lemma removeTab_before_current:
  assumes "n < length ws"
  shows "removeTab (int n) \<lparr>widgets = ws @ [c], currentIndex = int (length ws)\<rparr>
         = \<lparr>widgets = removeAt (int n) ws @ [c], currentIndex = int (length ws) - 1\<rparr>"
  using assms by (simp add: removeTab_def validIndex_def removeAt_append_last)

lemma tabBarMoveTab_last:
  assumes "Suc n < length ws"
  shows "tabBarMoveTab (int (length ws) - 1) (int n)
           \<lparr>widgets = removeAt (int n) ws @ [c], currentIndex = int (length ws) - 1\<rparr>
         = Some \<lparr>widgets = ws[n := c], currentIndex = int n\<rparr>"
proof -
  have "int (length ws) - 1 \<noteq> int n" using assms by linarith
  then show ?thesis
    using replace_by_move [OF assms, of c] by (simp add: tabBarMoveTab_def)
qed

lemma tabBarMoveTab_same: "tabBarMoveTab i i t = None"
  by (simp add: tabBarMoveTab_def)

lemma andThen_Inr: "andThen (Inr x) f = f x"
  by (simp add: andThen_def)

lemma replace_old_tab:
  assumes wf: "wellFormed m" and n: "n < length (mDocuments m)"
    and d: "fst d \<noteq> 0" "fst d \<notin> set (map fst (mDocuments m))"
  shows "andThen (addDocument env d m) (\<lambda>m1.
           andThen (closeDocumentAt (int n) m1) (\<lambda>m2.
             andThen (moveTab (int (length (mDocuments m2)) - 1) (int n) m2) k))
         = k \<lparr>mDocuments = (mDocuments m)[n := d],
                mTabWidget = \<lparr>widgets = (widgets (mTabWidget m))[n := openedContainer env (fst d)],
                              currentIndex = int n\<rparr>,
                mFileSystemWatcher =
                  watcherAfterReload (snd (mDocuments m ! n)) (snd d) (mFileSystemWatcher m),
                emitted = emitted m @ [DocumentAboutToClose (fst (mDocuments m ! n))]\<rparr>"
proof -
  define ds where "ds = mDocuments m"
  define ws where "ws = widgets (mTabWidget m)"
  define c where "c = openedContainer env (fst d)"
  define w1 where "w1 = (if fileName (snd d) \<noteq> []
      then addPath (fileName (snd d)) (mFileSystemWatcher m) else mFileSystemWatcher m)"
  define w2 where "w2 = watcherAfterReload (snd (ds ! n)) (snd d) (mFileSystemWatcher m)"
  define sg where "sg = emitted m @ [DocumentAboutToClose (fst (ds ! n))]"
  define m1 where "m1 = \<lparr>mDocuments = ds @ [d],
      mTabWidget = \<lparr>widgets = ws @ [c], currentIndex = int (length ds)\<rparr>,
      mFileSystemWatcher = w1, emitted = emitted m\<rparr>"
  define m2 where "m2 = \<lparr>mDocuments = removeAt (int n) ds @ [d],
      mTabWidget = \<lparr>widgets = removeAt (int n) ws @ [c], currentIndex = int (length ws) - 1\<rparr>,
      mFileSystemWatcher = w2, emitted = sg\<rparr>"
  define m3 where "m3 = \<lparr>mDocuments = ds[n := d],
      mTabWidget = \<lparr>widgets = ws[n := c], currentIndex = int n\<rparr>,
      mFileSystemWatcher = w2, emitted = sg\<rparr>"
  have len: "length ws = length ds" using wf by (simp add: wellFormed_def ws_def ds_def)
  have nd: "n < length ds" using n by (simp add: ds_def)
  have nw: "n < length ws" using nd len by simp
  have s1: "addDocument env d m = Inr m1"
    using addDocument_result [of m d env] wf d
    by (simp add: wellFormed_def m1_def ds_def ws_def c_def w1_def)
  have s2: "closeDocumentAt (int n) m1 = Inr m2"
  proof -
    have "n < length (mDocuments m1)" using nd by (simp add: m1_def)
    from closeDocumentAt_result [OF this] show ?thesis
      using nd removeTab_before_current [OF nw, of c]
      by (simp add: m1_def m2_def removeAt_append_last nth_append w2_def w1_def sg_def
          watcherAfterReload_def Let_def len)
  qed
  have l2: "int (length (mDocuments m2)) - 1 = int (length ds) - 1"
    using nd by (simp add: m2_def length_removeAt)
  have s3: "moveTab (int (length (mDocuments m2)) - 1) (int n) m2 = Inr m3"
  proof (cases "Suc n = length ds")
    case True
    then have e: "int (length ds) - 1 = int n" by linarith
    have "Suc n = length ws" using True len by simp
    then show ?thesis
      unfolding l2 e using True
      by (simp add: moveTab_def tabBarMoveTab_same m2_def m3_def replace_last)
  next
    case False
    then have lt: "Suc n < length ds" "Suc n < length ws" using nd len by simp_all
    have t: "tabBarMoveTab (int (length ds) - 1) (int n) (mTabWidget m2)
        = Some \<lparr>widgets = ws[n := c], currentIndex = int n\<rparr>"
      using tabBarMoveTab_last [OF lt(2), of c] by (simp add: m2_def len)
    show ?thesis
      unfolding l2 using replace_by_move [OF lt(1), of d]
      using t by (simp add: moveTab_def documentTabMoved_def m2_def m3_def andThen_def len)
  qed
  show ?thesis
    unfolding s1 andThen_Inr s2 s3
    by (simp add: m3_def ds_def ws_def c_def w2_def sg_def andThen_Inr)
qed

lemma setCurrentLayerIndex_new:
  assumes "p \<notin> set (map fst ds)" and "n < length ds"
  shows "map (\<lambda>d. if fst d = p then (fst d, (snd d)\<lparr>currentLayerIndex := l\<rparr>) else d)
           (ds[n := (p, nd)])
         = ds[n := (p, nd\<lparr>currentLayerIndex := l\<rparr>)]"
proof -
  let ?f = "\<lambda>d. if fst d = p then (fst d, (snd d)\<lparr>currentLayerIndex := l\<rparr>) else d"
  have "map ?f ds = ds"
    using assms(1) by (intro map_idI) auto
  then show ?thesis by (simp add: map_update)
qed

lemma MapView_overwritten:
  "(v::MapView)\<lparr>mapSceneDocument := p, zoomableScale := s,
       horizontalSliderPosition := h, verticalSliderPosition := w\<rparr>
   = \<lparr>zoomableScale = s, horizontalSliderPosition = h, verticalSliderPosition = w,
      mapSceneDocument = p\<rparr>"
  by (cases v) simp

lemma reloadDocumentAt_success:
  assumes wf: "wellFormed m" and n: "n < length (mDocuments m)"
    and ld: "loadMapDocument env (fileName (snd (mDocuments m ! n)))
               (readerFor env (snd (mDocuments m ! n))) = Inr d"
    and d: "fst d \<noteq> 0" "fst d \<notin> set (map fst (mDocuments m))"
  shows "reloadDocumentAt env (int n) m = Inr (True, reloaded env n d m)"
proof -
  have len: "length (widgets (mTabWidget m)) = length (mDocuments m)"
    using wf by (simp add: wellFormed_def)
  have at: "listAt (mDocuments m) (int n) = Inr (mDocuments m ! n)"
    using n by (simp add: listAt_def validIndex_def)
  note view = viewForDocument_at [OF wf n]
  note rep = replace_old_tab [OF wf n d]
  have sc: "setCurrentLayerIndex (fst d) l
        \<lparr>mDocuments = (mDocuments m)[n := d], mTabWidget = t, mFileSystemWatcher = w,
         emitted = e\<rparr>
      = \<lparr>mDocuments = (mDocuments m)[n := (fst d, (snd d)\<lparr>currentLayerIndex := l\<rparr>)],
         mTabWidget = t, mFileSystemWatcher = w, emitted = e\<rparr>" for l t w e
    using setCurrentLayerIndex_new [OF d(2) n, of l "snd d"]
    by (simp add: setCurrentLayerIndex_def)
  show ?thesis
    unfolding reloadDocumentAt_def at andThen_Inr Let_def ld view
    using n len
    by (simp add: rep currentMapView_def currentWidget_def tabWidgetAt_def validIndex_def
        modifyCurrentMapView_def sc reloaded_def restoredContainer_def restoredLayerIndex_def
        openedContainer_def setScale_def setHorizontalSliderPosition_def
        setVerticalSliderPosition_def Let_def MapView_overwritten)
qed

lemma reloaded_frame:
  "length (mDocuments (reloaded env n d m)) = length (mDocuments m)
   \<and> length (widgets (mTabWidget (reloaded env n d m))) = length (widgets (mTabWidget m))
   \<and> currentIndex (mTabWidget (reloaded env n d m)) = int n
   \<and> (\<forall>j. j \<noteq> n \<longrightarrow>
          mDocuments (reloaded env n d m) ! j = mDocuments m ! j
          \<and> widgets (mTabWidget (reloaded env n d m)) ! j = widgets (mTabWidget m) ! j)"
  by (simp add: reloaded_def)

lemma reloaded_at:
  assumes "wellFormed m" and "n < length (mDocuments m)"
  shows "mDocuments (reloaded env n d m) ! n =
           (fst d, (snd d)\<lparr>currentLayerIndex :=
                      restoredLayerIndex (snd (mDocuments m ! n)) (snd d)\<rparr>)"
    and "widgets (mTabWidget (reloaded env n d m)) ! n =
           restoredContainer env (mapView (widgets (mTabWidget m) ! n)) (fst d)"
  using assms by (simp_all add: reloaded_def wellFormed_def)

lemma reloadDocumentAt_failure:
  assumes "n < length (mDocuments m)"
    and "loadMapDocument env (fileName (snd (mDocuments m ! n)))
           (readerFor env (snd (mDocuments m ! n))) = Inl err"
  shows "reloadDocumentAt env (int n) m =
     Inr (False,
          m\<lparr>emitted := emitted m @
              [ReloadError (reloadErrorText (fileName (snd (mDocuments m ! n))) err)]\<rparr>)"
  using assms
  by (simp add: reloadDocumentAt_def listAt_def validIndex_def andThen_def Let_def)


subsection \<open>Looking a document up by its path\<close>

lemma indexFrom_none: "0 \<le> k \<Longrightarrow> (indexFrom P xs k = - 1) = (\<forall>x \<in> set xs. \<not> P x)"
  by (induction xs arbitrary: k) auto

lemma indexFrom_found:
  "0 \<le> k \<Longrightarrow> indexFrom P xs k \<noteq> - 1 \<Longrightarrow>
   k \<le> indexFrom P xs k \<and> indexFrom P xs k < k + int (length xs)
   \<and> P (xs ! nat (indexFrom P xs k - k))"
proof (induction xs arbitrary: k)
  case Nil
  then show ?case by simp
next
  case (Cons x xs)
  show ?case
  proof (cases "P x")
    case True
    then show ?thesis by simp
  next
    case False
    with Cons.prems have r: "indexFrom P xs (k + 1) \<noteq> - 1" and k: "0 \<le> k + 1" by simp_all
    from Cons.IH [OF k r] have
      a: "k + 1 \<le> indexFrom P xs (k + 1)" and
      b: "indexFrom P xs (k + 1) < k + 1 + int (length xs)" and
      c: "P (xs ! nat (indexFrom P xs (k + 1) - (k + 1)))" by simp_all
    have "nat (indexFrom P xs (k + 1) - k) = Suc (nat (indexFrom P xs (k + 1) - (k + 1)))"
      using a by linarith
    with a b c False show ?thesis by simp
  qed
qed

lemma findDocument_none:
  "(findDocument env m name = - 1) =
   (canonicalFilePath env name = []
    \<or> (\<forall>d \<in> set (mDocuments m).
          canonicalFilePath env (fileName (snd d)) \<noteq> canonicalFilePath env name))"
  by (simp add: findDocument_def Let_def indexFrom_none)

lemma findDocument_found:
  assumes "findDocument env m name \<noteq> - 1"
  shows "validIndex (findDocument env m name) (mDocuments m)
    \<and> canonicalFilePath env (fileName (snd (mDocuments m ! nat (findDocument env m name))))
      = canonicalFilePath env name
    \<and> canonicalFilePath env name \<noteq> []"
proof -
  let ?P = "\<lambda>d. canonicalFilePath env (fileName (snd d)) = canonicalFilePath env name"
  from assms have c: "canonicalFilePath env name \<noteq> []"
    by (auto simp add: findDocument_def Let_def)
  then have e: "findDocument env m name = indexFrom ?P (mDocuments m) 0"
    by (simp add: findDocument_def Let_def)
  with assms have "indexFrom ?P (mDocuments m) 0 \<noteq> - 1" by simp
  from indexFrom_found [OF _ this] c show ?thesis
    unfolding e by (simp add: validIndex_def)
qed

lemma exampleManager_wellFormed: "wellFormed exampleManager"
  by (simp add: wellFormed_def exampleManager_def)

subsection \<open>A failed reload\<close>

text \<open>
  Claim C2.  When the map of an open document cannot be read again, the reload returns
  \<open>False\<close> after emitting \<^verbatim>\<open>reloadError\<close> with a text made of the file name,
  a colon, an empty line and the loader's error.  Nothing else in the state of the
  manager changes: the documents, the tabs with their views, the current index and the
  watched paths are those before the call, and the old document stays registered.
\<close>

theorem reload_failure:
  assumes "validIndex index (mDocuments m)"
    and "loadMapDocument env (fileName (snd (mDocuments m ! nat index)))
           (readerFor env (snd (mDocuments m ! nat index))) = Inl err"
  shows "reloadDocumentAt env index m =
     Inr (False,
          m\<lparr>emitted := emitted m @
              [ReloadError (fileName (snd (mDocuments m ! nat index))
                            @ '':'' @ [CHR 0x0A, CHR 0x0A] @ err)]\<rparr>)"
  using assms
  by (simp add: reloadDocumentAt_def listAt_def andThen_def Let_def reloadErrorText_def)

theorem reload_failure_witness:
  "validIndex 1 (mDocuments exampleManager)
   \<and> loadMapDocument exampleEnvironment ''/maps/b.tmx'' None = Inl ''File not found.''
   \<and> reloadDocumentAt exampleEnvironment 1 exampleManager =
       Inr (False,
            exampleManager\<lparr>emitted :=
              [ReloadError (''/maps/b.tmx:'' @ [CHR 0x0A, CHR 0x0A] @ ''File not found.'')]\<rparr>)"
proof -
  have v: "validIndex 1 (mDocuments exampleManager)"
    by (simp add: validIndex_def exampleManager_def)
  have d: "mDocuments exampleManager ! nat 1 = (2, documentB)"
    by (simp add: exampleManager_def)
  have l: "loadMapDocument exampleEnvironment (fileName (snd (mDocuments exampleManager ! nat 1)))
      (readerFor exampleEnvironment (snd (mDocuments exampleManager ! nat 1)))
      = Inl ''File not found.''"
    unfolding d by (simp add: exampleEnvironment_def documentB_def readerFor_def)
  have l': "loadMapDocument exampleEnvironment ''/maps/b.tmx'' None = Inl ''File not found.''"
    by (simp add: exampleEnvironment_def)
  from reload_failure [OF v l] v l' show ?thesis
    unfolding d by (simp add: documentB_def exampleManager_def)
qed

subsection \<open>A file changed on disk\<close>

text \<open>
  Claim C1, as the code has it.  A notification for a path that no open document
  resolves to (or that does not exist) changes nothing.  Otherwise \<^verbatim>\<open>findDocument\<close>
  gives a document with the same canonical path, and: when the file's modification time
  is the document's time of the last save, nothing changes; else, when the document has
  no unsaved changes, a reload is started at once: when the map cannot be read the
  signal \<^verbatim>\<open>reloadError\<close> is emitted and nothing else changes, and when it is read
  (the loader returning a new document) the outcome is the reloaded state, with the new
  document at the position, no warning on its container and no signal but
  \<^verbatim>\<open>documentAboutToClose\<close> for the old document; else the warning of the document's
  container is shown, and the documents, the current index and every view are as before.
  The counterexample is a changed file of a document without unsaved changes that can
  no longer be read: the document is not reloaded, and an error is reported.
\<close>

theorem fileChanged_cases:
  assumes wf: "wellFormed m"
  shows
    "(canonicalFilePath env name = []
        \<or> (\<forall>d \<in> set (mDocuments m).
              canonicalFilePath env (fileName (snd d)) \<noteq> canonicalFilePath env name) \<longrightarrow>
        fileChanged env name m = Inr m)
     \<and> (canonicalFilePath env name \<noteq> []
        \<and> (\<exists>d \<in> set (mDocuments m).
              canonicalFilePath env (fileName (snd d)) = canonicalFilePath env name) \<longrightarrow>
         (let index = findDocument env m name;
              document = snd (mDocuments m ! nat index);
              loaded = loadMapDocument env (fileName document) (readerFor env document)
          in validIndex index (mDocuments m)
             \<and> canonicalFilePath env (fileName document) = canonicalFilePath env name
             \<and> (lastModified env name = lastSaved document \<longrightarrow>
                  fileChanged env name m = Inr m)
             \<and> (lastModified env name \<noteq> lastSaved document \<and> \<not> isModified document \<longrightarrow>
                  (\<forall>err. loaded = Inl err \<longrightarrow>
                     fileChanged env name m =
                       Inr (m\<lparr>emitted := emitted m @
                              [ReloadError (fileName document
                                            @ '':'' @ [CHR 0x0A, CHR 0x0A] @ err)]\<rparr>))
                  \<and> (\<forall>d. loaded = Inr d \<and> fst d \<noteq> 0
                          \<and> fst d \<notin> set (map fst (mDocuments m)) \<longrightarrow>
                     fileChanged env name m = Inr (reloaded env (nat index) d m)
                     \<and> fst (mDocuments (reloaded env (nat index) d m) ! nat index) = fst d
                     \<and> \<not> fileChangedWarningVisible
                           (widgets (mTabWidget (reloaded env (nat index) d m)) ! nat index)
                     \<and> emitted (reloaded env (nat index) d m)
                         = emitted m @ [DocumentAboutToClose (fst (mDocuments m ! nat index))]))
             \<and> (lastModified env name \<noteq> lastSaved document \<and> isModified document \<longrightarrow>
                  fileChanged env name m = Inr (warningShown (nat index) m)
                  \<and> mDocuments (warningShown (nat index) m) = mDocuments m
                  \<and> currentIndex (mTabWidget (warningShown (nat index) m))
                      = currentIndex (mTabWidget m)
                  \<and> map mapView (widgets (mTabWidget (warningShown (nat index) m)))
                      = map mapView (widgets (mTabWidget m)))))"
proof (intro conjI impI)
  assume "canonicalFilePath env name = []
        \<or> (\<forall>d \<in> set (mDocuments m).
              canonicalFilePath env (fileName (snd d)) \<noteq> canonicalFilePath env name)"
  then have "findDocument env m name = - 1"
    by (simp add: findDocument_none)
  then show "fileChanged env name m = Inr m"
    by (simp add: fileChanged_def)
next
  assume "canonicalFilePath env name \<noteq> []
        \<and> (\<exists>d \<in> set (mDocuments m).
              canonicalFilePath env (fileName (snd d)) = canonicalFilePath env name)"
  then have found: "findDocument env m name \<noteq> - 1"
    by (simp add: findDocument_none)
  define index where "index = findDocument env m name"
  define document where "document = snd (mDocuments m ! nat index)"
  define loaded where
    "loaded = loadMapDocument env (fileName document) (readerFor env document)"
  from findDocument_found [OF found] have
    v: "validIndex index (mDocuments m)" and
    c: "canonicalFilePath env (fileName document) = canonicalFilePath env name"
    by (simp_all add: index_def document_def)
  note vn = validIndex_nat [OF v]
  have n: "nat index < length (mDocuments m)" and i: "int (nat index) = index"
    using vn by simp_all
  have nw: "nat index < length (widgets (mTabWidget m))"
    using n wf by (simp add: wellFormed_def)
  have at: "listAt (mDocuments m) index = Inr (mDocuments m ! nat index)"
    using v by (simp add: listAt_def)
  have tab: "tabWidgetAt (mTabWidget m) index = Some (widgets (mTabWidget m) ! nat index)"
    using v wf by (simp add: tabWidgetAt_def validIndex_def wellFormed_def)
  have ne: "index \<noteq> - 1" using found by (simp add: index_def)
  have fc: "fileChanged env name m =
      (if lastModified env name = lastSaved document then Inr m
       else if \<not> isModified document
         then andThen (reloadDocumentAt env index m) (\<lambda>r. Inr (snd r))
       else Inr (warningShown (nat index) m))"
    using ne
    by (simp add: fileChanged_def Let_def index_def [symmetric] at andThen_Inr tab
        document_def warningShown_def)
  have failed: "\<forall>err. loaded = Inl err \<longrightarrow>
      andThen (reloadDocumentAt env index m) (\<lambda>r. Inr (snd r)) =
        Inr (m\<lparr>emitted := emitted m @
               [ReloadError (fileName document @ '':'' @ [CHR 0x0A, CHR 0x0A] @ err)]\<rparr>)"
  proof (intro allI impI)
    fix err
    assume "loaded = Inl err"
    then have "loadMapDocument env (fileName (snd (mDocuments m ! nat index)))
        (readerFor env (snd (mDocuments m ! nat index))) = Inl err"
      by (simp add: loaded_def document_def)
    from reloadDocumentAt_failure [OF n this]
    show "andThen (reloadDocumentAt env index m) (\<lambda>r. Inr (snd r)) =
        Inr (m\<lparr>emitted := emitted m @
               [ReloadError (fileName document @ '':'' @ [CHR 0x0A, CHR 0x0A] @ err)]\<rparr>)"
      unfolding i by (simp add: andThen_Inr reloadErrorText_def document_def)
  qed
  have succeeded: "\<forall>d. loaded = Inr d \<and> fst d \<noteq> 0
        \<and> fst d \<notin> set (map fst (mDocuments m)) \<longrightarrow>
      andThen (reloadDocumentAt env index m) (\<lambda>r. Inr (snd r))
        = Inr (reloaded env (nat index) d m)
      \<and> fst (mDocuments (reloaded env (nat index) d m) ! nat index) = fst d
      \<and> \<not> fileChangedWarningVisible
            (widgets (mTabWidget (reloaded env (nat index) d m)) ! nat index)
      \<and> emitted (reloaded env (nat index) d m)
          = emitted m @ [DocumentAboutToClose (fst (mDocuments m ! nat index))]"
  proof (intro allI impI)
    fix d
    assume a: "loaded = Inr d \<and> fst d \<noteq> 0 \<and> fst d \<notin> set (map fst (mDocuments m))"
    then have ld: "loadMapDocument env (fileName (snd (mDocuments m ! nat index)))
        (readerFor env (snd (mDocuments m ! nat index))) = Inr d"
      and fresh: "fst d \<noteq> 0" "fst d \<notin> set (map fst (mDocuments m))"
      by (simp_all add: loaded_def document_def)
    from reloadDocumentAt_success [OF wf n ld fresh]
    have r: "andThen (reloadDocumentAt env index m) (\<lambda>r. Inr (snd r))
        = Inr (reloaded env (nat index) d m)"
      unfolding i by (simp add: andThen_Inr)
    have e: "emitted (reloaded env (nat index) d m)
          = emitted m @ [DocumentAboutToClose (fst (mDocuments m ! nat index))]"
      by (simp add: reloaded_def)
    from r e reloaded_at [OF wf n, of env d]
    show "andThen (reloadDocumentAt env index m) (\<lambda>r. Inr (snd r))
        = Inr (reloaded env (nat index) d m)
      \<and> fst (mDocuments (reloaded env (nat index) d m) ! nat index) = fst d
      \<and> \<not> fileChangedWarningVisible
            (widgets (mTabWidget (reloaded env (nat index) d m)) ! nat index)
      \<and> emitted (reloaded env (nat index) d m)
          = emitted m @ [DocumentAboutToClose (fst (mDocuments m ! nat index))]"
      by (simp add: restoredContainer_def)
  qed
  have same: "map mapView (widgets (mTabWidget (warningShown (nat index) m)))
        = map mapView (widgets (mTabWidget m))"
    using nw by (simp add: warningShown_def map_update list_update_same_conv)
  have shown: "mDocuments (warningShown (nat index) m) = mDocuments m
      \<and> currentIndex (mTabWidget (warningShown (nat index) m)) = currentIndex (mTabWidget m)"
    by (simp add: warningShown_def)
  show "let index = findDocument env m name;
            document = snd (mDocuments m ! nat index);
            loaded = loadMapDocument env (fileName document) (readerFor env document)
        in validIndex index (mDocuments m)
           \<and> canonicalFilePath env (fileName document) = canonicalFilePath env name
           \<and> (lastModified env name = lastSaved document \<longrightarrow>
                fileChanged env name m = Inr m)
           \<and> (lastModified env name \<noteq> lastSaved document \<and> \<not> isModified document \<longrightarrow>
                (\<forall>err. loaded = Inl err \<longrightarrow>
                   fileChanged env name m =
                     Inr (m\<lparr>emitted := emitted m @
                            [ReloadError (fileName document
                                          @ '':'' @ [CHR 0x0A, CHR 0x0A] @ err)]\<rparr>))
                \<and> (\<forall>d. loaded = Inr d \<and> fst d \<noteq> 0
                        \<and> fst d \<notin> set (map fst (mDocuments m)) \<longrightarrow>
                   fileChanged env name m = Inr (reloaded env (nat index) d m)
                   \<and> fst (mDocuments (reloaded env (nat index) d m) ! nat index) = fst d
                   \<and> \<not> fileChangedWarningVisible
                         (widgets (mTabWidget (reloaded env (nat index) d m)) ! nat index)
                   \<and> emitted (reloaded env (nat index) d m)
                       = emitted m @ [DocumentAboutToClose (fst (mDocuments m ! nat index))]))
           \<and> (lastModified env name \<noteq> lastSaved document \<and> isModified document \<longrightarrow>
                fileChanged env name m = Inr (warningShown (nat index) m)
                \<and> mDocuments (warningShown (nat index) m) = mDocuments m
                \<and> currentIndex (mTabWidget (warningShown (nat index) m))
                    = currentIndex (mTabWidget m)
                \<and> map mapView (widgets (mTabWidget (warningShown (nat index) m)))
                    = map mapView (widgets (mTabWidget m)))"
    unfolding Let_def index_def [symmetric] document_def [symmetric] loaded_def [symmetric]
    using v c fc failed succeeded same shown by simp
qed

lemma example_findDocument_a:
  "findDocument exampleEnvironment exampleManager ''/maps/a.tmx'' = int 0"
  by (simp add: findDocument_def exampleEnvironment_def exampleManager_def documentA_def)

lemma example_findDocument_b:
  "findDocument exampleEnvironment exampleManager ''/maps/b.tmx'' = 1"
  by (simp add: findDocument_def exampleEnvironment_def exampleManager_def documentA_def
      documentB_def)

lemma unreadable_findDocument_a:
  "findDocument unreadableEnvironment exampleManager ''/maps/a.tmx'' = 0"
  by (simp add: findDocument_def unreadableEnvironment_def exampleEnvironment_def
      exampleManager_def documentA_def)

theorem fileChanged_cases_witness:
  "wellFormed exampleManager
   \<and> fileChanged exampleEnvironment ''/maps/c.tmx'' exampleManager = Inr exampleManager
   \<and> fileChanged exampleEnvironment ''/maps/a.tmx'' exampleManager
       = Inr (reloaded exampleEnvironment 0 (3, documentA_on_disk) exampleManager)
   \<and> fileChanged unreadableEnvironment ''/maps/a.tmx'' exampleManager
       = Inr (exampleManager\<lparr>emitted :=
           [ReloadError (''/maps/a.tmx:'' @ [CHR 0x0A, CHR 0x0A] @ ''File not found.'')]\<rparr>)
   \<and> fileChanged exampleEnvironment ''/maps/b.tmx'' exampleManager
       = Inr (warningShown 1 exampleManager)"
proof -
  note wf = exampleManager_wellFormed
  have da: "snd (mDocuments exampleManager ! 0) = documentA"
    and db: "snd (mDocuments exampleManager ! nat 1) = documentB"
    by (simp_all add: exampleManager_def)
  have none: "canonicalFilePath exampleEnvironment ''/maps/c.tmx'' = []"
    by (simp add: exampleEnvironment_def)
  from fileChanged_cases [OF wf, of exampleEnvironment "''/maps/c.tmx''"] none
  have r1: "fileChanged exampleEnvironment ''/maps/c.tmx'' exampleManager = Inr exampleManager"
    by blast
  have ca: "canonicalFilePath exampleEnvironment ''/maps/a.tmx'' \<noteq> []
      \<and> (\<exists>d \<in> set (mDocuments exampleManager).
            canonicalFilePath exampleEnvironment (fileName (snd d))
            = canonicalFilePath exampleEnvironment ''/maps/a.tmx'')"
    by (simp add: exampleEnvironment_def exampleManager_def documentA_def)
  have ta: "lastModified exampleEnvironment ''/maps/a.tmx'' \<noteq> lastSaved documentA"
    "\<not> isModified documentA"
    by (simp_all add: exampleEnvironment_def documentA_def)
  have la: "loadMapDocument exampleEnvironment (fileName documentA)
      (readerFor exampleEnvironment documentA) = Inr (3, documentA_on_disk)
      \<and> fst (3::nat, documentA_on_disk) \<noteq> 0
      \<and> fst (3::nat, documentA_on_disk) \<notin> set (map fst (mDocuments exampleManager))"
    by (simp add: exampleEnvironment_def documentA_def readerFor_def exampleManager_def)
  from fileChanged_cases [OF wf, of exampleEnvironment "''/maps/a.tmx''"] ca
  have "let index = findDocument exampleEnvironment exampleManager ''/maps/a.tmx'';
            document = snd (mDocuments exampleManager ! nat index);
            loaded = loadMapDocument exampleEnvironment (fileName document)
                       (readerFor exampleEnvironment document)
        in lastModified exampleEnvironment ''/maps/a.tmx'' \<noteq> lastSaved document
             \<and> \<not> isModified document \<longrightarrow>
           (\<forall>d. loaded = Inr d \<and> fst d \<noteq> 0
                 \<and> fst d \<notin> set (map fst (mDocuments exampleManager)) \<longrightarrow>
              fileChanged exampleEnvironment ''/maps/a.tmx'' exampleManager
                = Inr (reloaded exampleEnvironment (nat index) d exampleManager))"
    unfolding Let_def by blast
  then have "\<forall>d. loadMapDocument exampleEnvironment (fileName documentA)
          (readerFor exampleEnvironment documentA) = Inr d \<and> fst d \<noteq> 0
          \<and> fst d \<notin> set (map fst (mDocuments exampleManager)) \<longrightarrow>
       fileChanged exampleEnvironment ''/maps/a.tmx'' exampleManager
         = Inr (reloaded exampleEnvironment (nat 0) d exampleManager)"
    using ta by (simp add: Let_def example_findDocument_a da)
  with la
  have r2: "fileChanged exampleEnvironment ''/maps/a.tmx'' exampleManager
       = Inr (reloaded exampleEnvironment 0 (3, documentA_on_disk) exampleManager)"
    by (metis nat_0)
  have cu: "canonicalFilePath unreadableEnvironment ''/maps/a.tmx'' \<noteq> []
      \<and> (\<exists>d \<in> set (mDocuments exampleManager).
            canonicalFilePath unreadableEnvironment (fileName (snd d))
            = canonicalFilePath unreadableEnvironment ''/maps/a.tmx'')"
    by (simp add: unreadableEnvironment_def exampleEnvironment_def exampleManager_def
        documentA_def)
  have tu: "lastModified unreadableEnvironment ''/maps/a.tmx'' \<noteq> lastSaved documentA"
    by (simp add: unreadableEnvironment_def exampleEnvironment_def documentA_def)
  have lu: "loadMapDocument unreadableEnvironment (fileName documentA)
      (readerFor unreadableEnvironment documentA) = Inl ''File not found.''"
    by (simp add: unreadableEnvironment_def)
  from fileChanged_cases [OF wf, of unreadableEnvironment "''/maps/a.tmx''"] cu
  have "let index = findDocument unreadableEnvironment exampleManager ''/maps/a.tmx'';
            document = snd (mDocuments exampleManager ! nat index);
            loaded = loadMapDocument unreadableEnvironment (fileName document)
                       (readerFor unreadableEnvironment document)
        in lastModified unreadableEnvironment ''/maps/a.tmx'' \<noteq> lastSaved document
             \<and> \<not> isModified document \<longrightarrow>
           (\<forall>err. loaded = Inl err \<longrightarrow>
              fileChanged unreadableEnvironment ''/maps/a.tmx'' exampleManager =
                Inr (exampleManager\<lparr>emitted := emitted exampleManager @
                       [ReloadError (fileName document
                                     @ '':'' @ [CHR 0x0A, CHR 0x0A] @ err)]\<rparr>))"
    unfolding Let_def by blast
  then have "fileChanged unreadableEnvironment ''/maps/a.tmx'' exampleManager =
       Inr (exampleManager\<lparr>emitted := emitted exampleManager @
              [ReloadError (fileName documentA
                            @ '':'' @ [CHR 0x0A, CHR 0x0A] @ ''File not found.'')]\<rparr>)"
    using tu ta(2) lu by (simp add: Let_def unreadable_findDocument_a da)
  then have r3: "fileChanged unreadableEnvironment ''/maps/a.tmx'' exampleManager
       = Inr (exampleManager\<lparr>emitted :=
           [ReloadError (''/maps/a.tmx:'' @ [CHR 0x0A, CHR 0x0A] @ ''File not found.'')]\<rparr>)"
    by (simp add: documentA_def exampleManager_def)
  have cb: "canonicalFilePath exampleEnvironment ''/maps/b.tmx'' \<noteq> []
      \<and> (\<exists>d \<in> set (mDocuments exampleManager).
            canonicalFilePath exampleEnvironment (fileName (snd d))
            = canonicalFilePath exampleEnvironment ''/maps/b.tmx'')"
    by (simp add: exampleEnvironment_def exampleManager_def documentB_def)
  have tb: "lastModified exampleEnvironment ''/maps/b.tmx'' \<noteq> lastSaved documentB"
    "isModified documentB"
    by (simp_all add: exampleEnvironment_def documentB_def)
  from fileChanged_cases [OF wf, of exampleEnvironment "''/maps/b.tmx''"] cb tb
  have r4: "fileChanged exampleEnvironment ''/maps/b.tmx'' exampleManager
       = Inr (warningShown 1 exampleManager)"
    unfolding example_findDocument_b Let_def db by simp
  from wf r1 r2 r3 r4 show ?thesis by blast
qed

theorem failed_automatic_reload_counterexample:
  "findDocument unreadableEnvironment exampleManager ''/maps/a.tmx'' = 0
   \<and> mDocuments exampleManager ! 0 = (1, documentA)
   \<and> \<not> isModified documentA
   \<and> lastModified unreadableEnvironment ''/maps/a.tmx'' \<noteq> lastSaved documentA
   \<and> fileChanged unreadableEnvironment ''/maps/a.tmx'' exampleManager
       = Inr (exampleManager\<lparr>emitted :=
           [ReloadError (''/maps/a.tmx:'' @ [CHR 0x0A, CHR 0x0A] @ ''File not found.'')]\<rparr>)"
proof -
  have n: "0 < length (mDocuments exampleManager)"
    and d: "mDocuments exampleManager ! 0 = (1, documentA)"
    by (simp_all add: exampleManager_def)
  have t: "\<not> isModified documentA"
    "lastModified unreadableEnvironment ''/maps/a.tmx'' \<noteq> lastSaved documentA"
    by (simp_all add: unreadableEnvironment_def exampleEnvironment_def documentA_def)
  have l: "loadMapDocument unreadableEnvironment
      (fileName (snd (mDocuments exampleManager ! 0)))
      (readerFor unreadableEnvironment (snd (mDocuments exampleManager ! 0)))
      = Inl ''File not found.''"
    by (simp add: unreadableEnvironment_def)
  have at: "listAt (mDocuments exampleManager) 0 = Inr (1, documentA)"
    by (simp add: listAt_def validIndex_def exampleManager_def)
  have r: "reloadDocumentAt unreadableEnvironment 0 exampleManager
      = Inr (False, exampleManager\<lparr>emitted :=
           [ReloadError (''/maps/a.tmx:'' @ [CHR 0x0A, CHR 0x0A] @ ''File not found.'')]\<rparr>)"
    using reloadDocumentAt_failure [OF n l]
    by (simp add: d reloadErrorText_def documentA_def exampleManager_def)
  have "fileChanged unreadableEnvironment ''/maps/a.tmx'' exampleManager
       = Inr (exampleManager\<lparr>emitted :=
           [ReloadError (''/maps/a.tmx:'' @ [CHR 0x0A, CHR 0x0A] @ ''File not found.'')]\<rparr>)"
    using t by (simp add: fileChanged_def unreadable_findDocument_a at andThen_Inr r)
  with unreadable_findDocument_a d t show ?thesis by blast
qed

subsection \<open>A successful reload\<close>




subsection \<open>Reloading a document that is not the current one\<close>

lemma fileChanged_reloads:
  assumes wf: "wellFormed m" and found: "findDocument env m name = int n"
    and changed: "lastModified env name \<noteq> lastSaved (snd (mDocuments m ! n))"
    and clean: "\<not> isModified (snd (mDocuments m ! n))"
    and ld: "loadMapDocument env (fileName (snd (mDocuments m ! n)))
               (readerFor env (snd (mDocuments m ! n))) = Inr d"
    and fresh: "fst d \<noteq> 0" "fst d \<notin> set (map fst (mDocuments m))"
  shows "n < length (mDocuments m)" and "fileChanged env name m = Inr (reloaded env n d m)"
proof -
  have ne: "findDocument env m name \<noteq> - 1" using found by simp
  from findDocument_found [OF this] show n: "n < length (mDocuments m)"
    unfolding found by (simp add: validIndex_def)
  then have at: "listAt (mDocuments m) (int n) = Inr (mDocuments m ! n)"
    by (simp add: listAt_def validIndex_def)
  show "fileChanged env name m = Inr (reloaded env n d m)"
    using changed clean
    by (simp add: fileChanged_def found at andThen_Inr
        reloadDocumentAt_success [OF wf n ld fresh])
qed

lemma example_reload_a:
  "fileChanged exampleEnvironment ''/maps/a.tmx'' exampleManager
   = Inr (reloaded exampleEnvironment 0 (3, documentA_on_disk) exampleManager)"
proof -
  have d: "mDocuments exampleManager ! 0 = (1, documentA)"
    by (simp add: exampleManager_def)
  show ?thesis
    by (rule fileChanged_reloads(2) [OF exampleManager_wellFormed example_findDocument_a])
      (simp_all add: d exampleEnvironment_def documentA_def readerFor_def exampleManager_def)
qed

text \<open>
  Claim C7, as the code has it.  When a file changes on disk, its document at position
  \<open>n\<close> has no unsaved changes and the map is read again successfully, the document
  is reloaded without a warning; every other document and every other tab (container,
  view, warning) is what it was, at the position it had.  The reloaded document becomes
  the current one, whichever document was current before: \<^verbatim>\<open>addDocument\<close> switches
  to the document it adds, and \<^verbatim>\<open>reloadDocumentAt\<close> restores the view through
  \<^verbatim>\<open>currentMapView\<close>.  The counterexample has two documents, the second one
  current, and a change to the file of the first: afterwards the first is current.
\<close>

theorem reload_of_changed_file_frame:
  assumes wf: "wellFormed m" and found: "findDocument env m name = int n"
    and changed: "lastModified env name \<noteq> lastSaved (snd (mDocuments m ! n))"
    and clean: "\<not> isModified (snd (mDocuments m ! n))"
    and ld: "loadMapDocument env (fileName (snd (mDocuments m ! n)))
               (readerFor env (snd (mDocuments m ! n))) = Inr d"
    and fresh: "fst d \<noteq> 0" "fst d \<notin> set (map fst (mDocuments m))"
  shows
    "(let m' = reloaded env n d m
      in fileChanged env name m = Inr m'
         \<and> length (mDocuments m') = length (mDocuments m)
         \<and> length (widgets (mTabWidget m')) = length (widgets (mTabWidget m))
         \<and> (\<forall>j. j \<noteq> n \<longrightarrow>
                mDocuments m' ! j = mDocuments m ! j
                \<and> widgets (mTabWidget m') ! j = widgets (mTabWidget m) ! j)
         \<and> currentIndex (mTabWidget m') = int n
         \<and> currentDocument m' = Inr (Some (mDocuments m' ! n))
         \<and> fst (mDocuments m' ! n) = fst d)"
proof -
  note r = fileChanged_reloads [OF assms]
  have "currentDocument (reloaded env n d m) = Inr (Some (mDocuments (reloaded env n d m) ! n))"
    using r(1) by (simp add: currentDocument_def listAt_def validIndex_def reloaded_def)
  then show ?thesis
    unfolding Let_def
    using r reloaded_frame [of env n d m] reloaded_at [OF wf r(1), of env d] by simp
qed

theorem reload_of_changed_file_frame_witness:
  "wellFormed exampleManager
   \<and> findDocument exampleEnvironment exampleManager ''/maps/a.tmx'' = 0
   \<and> fileChanged exampleEnvironment ''/maps/a.tmx'' exampleManager
       = Inr (reloaded exampleEnvironment 0 (3, documentA_on_disk) exampleManager)
   \<and> mDocuments (reloaded exampleEnvironment 0 (3, documentA_on_disk) exampleManager) ! 1
       = (2, documentB)
   \<and> currentIndex (mTabWidget
         (reloaded exampleEnvironment 0 (3, documentA_on_disk) exampleManager)) = 0"
proof -
  have d: "mDocuments exampleManager ! 0 = (1, documentA)"
    by (simp add: exampleManager_def)
  have h: "lastModified exampleEnvironment ''/maps/a.tmx''
        \<noteq> lastSaved (snd (mDocuments exampleManager ! 0))"
    "\<not> isModified (snd (mDocuments exampleManager ! 0))"
    "loadMapDocument exampleEnvironment (fileName (snd (mDocuments exampleManager ! 0)))
       (readerFor exampleEnvironment (snd (mDocuments exampleManager ! 0)))
     = Inr (3, documentA_on_disk)"
    "fst (3::nat, documentA_on_disk) \<noteq> 0"
    "fst (3::nat, documentA_on_disk) \<notin> set (map fst (mDocuments exampleManager))"
    unfolding d
    by (simp_all add: exampleEnvironment_def documentA_def readerFor_def exampleManager_def)
  from reload_of_changed_file_frame
    [OF exampleManager_wellFormed example_findDocument_a h]
    exampleManager_wellFormed example_findDocument_a
  show ?thesis
    by (simp add: Let_def exampleManager_def)
qed

theorem active_document_after_reload_counterexample:
  "currentDocument exampleManager = Inr (Some (2, documentB))
   \<and> \<not> isModified documentA
   \<and> andThen (fileChanged exampleEnvironment ''/maps/a.tmx'' exampleManager) currentDocument
       = Inr (Some (3, documentA_on_disk\<lparr>currentLayerIndex := 1\<rparr>))"
  unfolding example_reload_a andThen_Inr
  by (simp add: currentDocument_def listAt_def validIndex_def reloaded_def exampleManager_def
      restoredLayerIndex_def documentA_def documentA_on_disk_def)

subsection \<open>Closing a document\<close>

lemma closeDocumentAt_closed:
  "n < length (mDocuments m) \<Longrightarrow> closeDocumentAt (int n) m = Inr (closed n m)"
  by (simp add: closeDocumentAt_result closed_def removeAt_int)

lemma widgets_removeTab:
  "n < length (widgets t) \<Longrightarrow>
   widgets (removeTab (int n) t) = take n (widgets t) @ drop (Suc n) (widgets t)"
  by (simp add: removeTab_def validIndex_def removeAt_int)



lemma wellFormed_closed:
  assumes "wellFormed m" and "n < length (mDocuments m)"
  shows "wellFormed (closed n m)"
proof -
  have "distinct (map fst (take n (mDocuments m) @ drop (Suc n) (mDocuments m)))"
    using assms(1) distinct_take [of "map fst (mDocuments m)" n]
      distinct_drop [of "map fst (mDocuments m)" "Suc n"]
      set_take_disj_set_drop_if_distinct [of "map fst (mDocuments m)" n "Suc n"]
    by (simp add: wellFormed_def take_map drop_map)
  then show ?thesis
    using assms by (simp add: wellFormed_def closed_def widgets_removeTab)
qed







subsection \<open>No document is registered twice\<close>

lemma addDocument_Inr:
  assumes "addDocument env d m = Inr m'"
  shows "fst d \<noteq> 0 \<and> fst d \<notin> set (map fst (mDocuments m))"
  using assms by (auto simp add: addDocument_def split: if_splits)

lemma closeDocumentAt_Inr:
  assumes "closeDocumentAt index m = Inr m'"
  shows "validIndex index (mDocuments m)"
  using assms by (auto simp add: closeDocumentAt_def listAt_def andThen_def split: if_splits)

lemma wellFormed_emptyManager: "wellFormed emptyManager"
  by (simp add: wellFormed_def emptyManager_def)

lemma perform_wellFormed:
  assumes wf: "wellFormed m" and p: "perform env operation m = Inr m'"
  shows "wellFormed m'"
proof (cases operation)
  case (Open d)
  with p have a: "addDocument env d m = Inr m'" by simp
  note f = addDocument_Inr [OF a]
  have len: "length (widgets (mTabWidget m)) = length (mDocuments m)"
    using wf by (simp add: wellFormed_def)
  from a addDocument_result [OF len, of d env] f wf show ?thesis
    by (auto simp add: wellFormed_def)
next
  case (Close index)
  with p have c: "closeDocumentAt index m = Inr m'" by simp
  from closeDocumentAt_Inr [OF c] have n: "nat index < length (mDocuments m)"
    and i: "int (nat index) = index"
    using validIndex_nat by blast+
  from c closeDocumentAt_closed [OF n] i have "m' = closed (nat index) m" by simp
  with wellFormed_closed [OF wf n] show ?thesis by simp
qed

lemma distinct_filter_without:
  assumes "distinct (filter P (map f xs))"
  shows "distinct (filter P (map f (take n xs @ drop (Suc n) xs)))"
proof (cases "n < length xs")
  case True
  then have "xs = take n xs @ xs ! n # drop (Suc n) xs" by (rule id_take_nth_drop)
  then have "filter P (map f xs)
      = filter P (map f (take n xs)) @ filter P [f (xs ! n)] @ filter P (map f (drop (Suc n) xs))"
    by (metis append_Cons append_Nil filter_append list.simps(9) map_append)
  with assms show ?thesis by auto
next
  case False
  with assms show ?thesis by simp
qed

lemma perform_uniquePaths:
  assumes wf: "wellFormed m" and u: "uniquePaths env m"
    and l: "lookedUp env [operation] m" and p: "perform env operation m = Inr m'"
  shows "uniquePaths env m'"
proof (cases operation)
  case (Open d)
  with p have a: "addDocument env d m = Inr m'" by simp
  note f = addDocument_Inr [OF a]
  have len: "length (widgets (mTabWidget m)) = length (mDocuments m)"
    using wf by (simp add: wellFormed_def)
  from a addDocument_result [OF len, of d env] f
  have docs: "mDocuments m' = mDocuments m @ [d]" by auto
  from l Open have "findDocument env m (fileName (snd d)) = - 1" by simp
  then have "canonicalFilePath env (fileName (snd d)) = []
      \<or> (\<forall>x \<in> set (mDocuments m).
            canonicalFilePath env (fileName (snd x)) \<noteq> canonicalFilePath env (fileName (snd d)))"
    by (simp add: findDocument_none)
  with u show ?thesis
    by (auto simp add: uniquePaths_def canonicalPaths_def docs)
next
  case (Close index)
  with p have c: "closeDocumentAt index m = Inr m'" by simp
  from closeDocumentAt_Inr [OF c] have n: "nat index < length (mDocuments m)"
    and i: "int (nat index) = index"
    using validIndex_nat by blast+
  from c closeDocumentAt_closed [OF n] i have "m' = closed (nat index) m" by simp
  then show ?thesis
    using u distinct_filter_without by (simp add: uniquePaths_def canonicalPaths_def closed_def)
qed

lemma run_invariant:
  assumes "wellFormed m" and "run env operations m = Inr m'"
  shows "wellFormed m' \<and> (uniquePaths env m \<and> lookedUp env operations m \<longrightarrow> uniquePaths env m')"
  using assms
proof (induction operations arbitrary: m)
  case Nil
  then show ?case by simp
next
  case (Cons operation operations)
  from Cons.prems(2) obtain m1 where p: "perform env operation m = Inr m1"
    and r: "run env operations m1 = Inr m'"
    by (auto simp add: andThen_def split: sum.splits)
  note wf1 = perform_wellFormed [OF Cons.prems(1) p]
  from Cons.IH [OF wf1 r] have wf': "wellFormed m'"
    and u': "uniquePaths env m1 \<and> lookedUp env operations m1 \<longrightarrow> uniquePaths env m'"
    by simp_all
  have "uniquePaths env m'" if u: "uniquePaths env m" and l: "lookedUp env (operation # operations) m"
  proof -
    from l p have l1: "lookedUp env [operation] m" and l2: "lookedUp env operations m1"
      by (simp_all split: operation.splits)
    from perform_uniquePaths [OF Cons.prems(1) u l1 p] l2 u' show ?thesis by simp
  qed
  with wf' show ?case by blast
qed

text \<open>
  Claim C9, as the code has it.  After every sequence of open and close operations that
  starts from the empty manager and fails no assertion, no document object is registered
  twice.  When moreover every document was opened only after \<^verbatim>\<open>findDocument\<close> had
  found no open document for its file name, no two open documents resolve to the same
  canonical path.  Every prefix of a run is a run, so this holds at every point of it.
  \<^verbatim>\<open>addDocument\<close> itself compares document objects, not paths: the counterexample
  opens two documents read from the same file.
\<close>

theorem registered_once:
  assumes "run env operations emptyManager = Inr m"
  shows "distinct (map fst (mDocuments m))
     \<and> (lookedUp env operations emptyManager \<longrightarrow> uniquePaths env m)"
proof -
  have "uniquePaths env emptyManager"
    by (simp add: uniquePaths_def canonicalPaths_def emptyManager_def)
  with run_invariant [OF wellFormed_emptyManager assms] show ?thesis
    by (simp add: wellFormed_def)
qed

lemma example_run:
  "\<exists>m. run exampleEnvironment [Open (1, documentA), Open (2, documentB), Close 0] emptyManager
        = Inr m \<and> mDocuments m = [(2, documentB)]"
  by (simp add: addDocument_def closeDocumentAt_def andThen_def Let_def emptyManager_def
      switchToDocument_def addTab_def setCurrentIndex_def validIndex_def centerViewOn_def
      currentMapView_def currentWidget_def tabWidgetAt_def currentDocument_def listAt_def
      modifyCurrentMapView_def removeAt_def removeTab_def documentA_def documentB_def)

theorem registered_once_witness:
  "lookedUp exampleEnvironment [Open (1, documentA), Open (2, documentB), Close 0] emptyManager
   \<and> (case run exampleEnvironment [Open (1, documentA), Open (2, documentB), Close 0]
              emptyManager of
         Inl e \<Rightarrow> False
       | Inr m \<Rightarrow>
           mDocuments m = [(2, documentB)] \<and> distinct (map fst (mDocuments m))
           \<and> uniquePaths exampleEnvironment m)"
proof -
  from example_run obtain m where
    r: "run exampleEnvironment [Open (1, documentA), Open (2, documentB), Close 0] emptyManager
        = Inr m" and d: "mDocuments m = [(2, documentB)]" by blast
  have l: "lookedUp exampleEnvironment [Open (1, documentA), Open (2, documentB), Close 0]
      emptyManager"
    by (simp add: findDocument_def addDocument_def closeDocumentAt_def andThen_def Let_def
      emptyManager_def
      switchToDocument_def addTab_def setCurrentIndex_def validIndex_def centerViewOn_def
      currentMapView_def currentWidget_def tabWidgetAt_def currentDocument_def listAt_def
      modifyCurrentMapView_def removeAt_def removeTab_def documentA_def documentB_def
      exampleEnvironment_def)
  from registered_once [OF r] l d
  have "mDocuments m = [(2, documentB)] \<and> distinct (map fst (mDocuments m))
      \<and> uniquePaths exampleEnvironment m" by blast
  then show ?thesis
    unfolding r sum.case using l by blast
qed

theorem shared_path_counterexample:
  "map_sum id (canonicalPaths exampleEnvironment)
     (run exampleEnvironment [Open (1, documentA), Open (3, documentA_on_disk)] emptyManager)
   = Inr [''/maps/a.tmx'', ''/maps/a.tmx'']
   \<and> map_sum id (uniquePaths exampleEnvironment)
     (run exampleEnvironment [Open (1, documentA), Open (3, documentA_on_disk)] emptyManager)
   = Inr False"
  by (simp add: addDocument_def andThen_def Let_def emptyManager_def
      switchToDocument_def addTab_def setCurrentIndex_def validIndex_def centerViewOn_def
      currentMapView_def currentWidget_def tabWidgetAt_def currentDocument_def listAt_def
      modifyCurrentMapView_def documentA_def documentA_on_disk_def canonicalPaths_def
      uniquePaths_def exampleEnvironment_def)

section \<open>Properties of the object creation tool\<close>

subsection \<open>Starting, cancelling and committing\<close>

lemma remove1_append_new: "x \<notin> set xs \<Longrightarrow> remove1 x (xs @ [x]) = xs"
  by (simp add: remove1_append)

lemma startNewMapObject_started:
  assumes "newObjectFor tool g grp (fst newMapObject)"
    and "createNewMapObject env tool = Some newMapObject"
  shows "startNewMapObject env pos g tool = Inr (started pos g grp newMapObject tool)"
  using assms
  by (simp add: startNewMapObject_def newObjectFor_def addObject_def andThen_def Let_def
      started_def)

lemma cancel_started:
  assumes n: "newObjectFor tool g grp (fst newMapObject)"
  shows "cancelNewMapObject (started pos g grp newMapObject tool) = Inr tool"
proof -
  let ?item = "\<lparr>mapObject = fst newMapObject, zValue = 10000\<rparr>"
  from n have g: "objectGroups (editedMap tool) g = Some grp"
    and o: "mapObjects (editedMap tool) (fst newMapObject) = None"
    and f: "fst newMapObject \<notin> set (objects grp)"
    and i: "mNewMapObjectItem tool = None" "mOverlayPolygonItem tool = None"
    and s: "\<forall>item \<in> set (sceneItems (editedMap tool)). mapObject item \<noteq> fst newMapObject"
    by (simp_all add: newObjectFor_def)
  have "?item \<notin> set (sceneItems (editedMap tool))" using s by auto
  then have items: "remove1 ?item (sceneItems (editedMap tool) @ [?item])
      = sceneItems (editedMap tool)"
    by (rule remove1_append_new)
  have objs: "remove1 (fst newMapObject) (objects grp @ [fst newMapObject]) = objects grp"
    using f by (rule remove1_append_new)
  have gs: "(objectGroups (editedMap tool))(g := Some grp) = objectGroups (editedMap tool)"
    using g by (simp add: fun_upd_idem)
  have os: "(mapObjects (editedMap tool))(fst newMapObject := None) = mapObjects (editedMap tool)"
    using o by (simp add: fun_upd_idem)
  show ?thesis
    using i
    by (simp add: cancelNewMapObject_def clearNewMapObjectItem_def started_def Let_def
        removeObject_def andThen_def deleteItem_def items objs gs os)
qed

lemma finish_started:
  assumes n: "newObjectFor tool g grp (fst newMapObject)"
  shows "finishNewMapObject (started pos g grp newMapObject tool)
         = Inr (committed pos g grp newMapObject tool)"
proof -
  let ?item = "\<lparr>mapObject = fst newMapObject, zValue = 10000\<rparr>"
  from n have f: "fst newMapObject \<notin> set (objects grp)"
    and i: "mNewMapObjectItem tool = None" "mOverlayPolygonItem tool = None"
    and s: "\<forall>item \<in> set (sceneItems (editedMap tool)). mapObject item \<noteq> fst newMapObject"
    by (simp_all add: newObjectFor_def)
  have "?item \<notin> set (sceneItems (editedMap tool))" using s by auto
  then have items: "remove1 ?item (sceneItems (editedMap tool) @ [?item])
      = sceneItems (editedMap tool)"
    by (rule remove1_append_new)
  have objs: "remove1 (fst newMapObject) (objects grp @ [fst newMapObject]) = objects grp"
    using f by (rule remove1_append_new)
  show ?thesis
    using i
    by (simp add: finishNewMapObject_def clearNewMapObjectItem_def started_def Let_def
        removeObject_def andThen_def deleteItem_def items objs push_def addObject_def
        committed_def)
qed

lemma example_newObjectFor: "newObjectFor exampleTool 1 exampleGroup (fst exampleObject)"
  by (simp add: newObjectFor_def exampleTool_def exampleGroup_def exampleObject_def)

lemma example_factory:
  "createNewMapObject exampleToolEnvironment exampleTool = Some exampleObject"
  by (simp add: exampleToolEnvironment_def)

text \<open>
  Claim C4.  Take a tool without a session and an object that the factory newly
  creates.  Starting the session puts the object into the group and its item into the
  scene.  Cancelling the session, by the Escape key or by deactivating the tool (which
  cancels whenever a session is active), takes the object out of its group, destroys
  the object and the item and pushes nothing: the state is again the one from before the
  session started, so the objects of the group and the undo stack are what they were
  (after a deactivation the base class's own \<^verbatim>\<open>deactivate\<close> has run on that state).
\<close>

theorem cancel_creation:
  assumes n: "newObjectFor tool g grp (fst newMapObject)"
    and c: "createNewMapObject env tool = Some newMapObject"
  shows
    "(let session = started pos g grp newMapObject tool
      in startNewMapObject env pos g tool = Inr session
         \<and> mNewMapObjectItem session \<noteq> None
         \<and> map_option objects (objectGroups (editedMap session) g)
             = Some (objects grp @ [fst newMapObject])
         \<and> mapObjects (editedMap session) (fst newMapObject) \<noteq> None
         \<and> sceneItems (editedMap session)
             = sceneItems (editedMap tool) @ [\<lparr>mapObject = fst newMapObject, zValue = 10000\<rparr>]
         \<and> cancelNewMapObject session = Inr tool
         \<and> keyPressed env Key_Escape session = Inr tool
         \<and> deactivate env session
             = Inr (tool\<lparr>editedMap := abstractDeactivate env (editedMap tool)\<rparr>)
         \<and> objectGroups (editedMap tool) g = Some grp
         \<and> fst newMapObject \<notin> set (objects grp)
         \<and> mapObjects (editedMap tool) (fst newMapObject) = None)"
proof -
  note s = startNewMapObject_started [OF n c, of pos]
  note x = cancel_started [OF n, of pos]
  have a: "mNewMapObjectItem (started pos g grp newMapObject tool) \<noteq> None"
    by (simp add: started_def)
  show ?thesis
    unfolding Let_def
    using s x a n
    by (simp add: keyPressed_def deactivate_def andThen_def)
      (simp add: started_def newObjectFor_def)
qed

theorem cancel_creation_witness:
  "newObjectFor exampleTool 1 exampleGroup 7
   \<and> startNewMapObject exampleToolEnvironment (96, 96) 1 exampleTool
       = Inr (started (96, 96) 1 exampleGroup exampleObject exampleTool)
   \<and> keyPressed exampleToolEnvironment Key_Escape
         (started (96, 96) 1 exampleGroup exampleObject exampleTool) = Inr exampleTool
   \<and> deactivate exampleToolEnvironment
         (started (96, 96) 1 exampleGroup exampleObject exampleTool) = Inr exampleTool"
proof -
  have d: "exampleTool\<lparr>editedMap :=
      abstractDeactivate exampleToolEnvironment (editedMap exampleTool)\<rparr> = exampleTool"
    by (simp add: exampleToolEnvironment_def)
  have f: "fst exampleObject = 7" by (simp add: exampleObject_def)
  from cancel_creation [OF example_newObjectFor example_factory, of "(96, 96)"]
    example_newObjectFor
  show ?thesis
    unfolding Let_def d f by simp
qed

subsection \<open>The undo stack\<close>

lemma addObject_undoStack:
  "addObject g ob em = Inr em' \<Longrightarrow> undoStack em' = undoStack em"
  by (auto simp add: addObject_def split: option.splits)

lemma removeObject_undoStack:
  "removeObject g ob em = Inr em' \<Longrightarrow> undoStack em' = undoStack em"
  by (auto simp add: removeObject_def split: option.splits)

lemma deleteItem_undoStack: "undoStack (deleteItem item em) = undoStack em"
  by (simp add: deleteItem_def split: option.splits)

lemma startNewMapObject_undoStack:
  assumes "startNewMapObject env pos g tool = Inr tool'"
  shows "undoStack (editedMap tool') = undoStack (editedMap tool)"
  using assms
  by (auto simp add: startNewMapObject_def andThen_def Let_def
      split: if_splits option.splits sum.splits dest!: addObject_undoStack)

lemma clearNewMapObjectItem_undoStack:
  assumes "clearNewMapObjectItem tool = Inr r"
  shows "undoStack (editedMap (snd r)) = undoStack (editedMap tool)"
  using assms
  by (auto simp add: clearNewMapObjectItem_def andThen_def Let_def deleteItem_undoStack
      split: option.splits sum.splits dest!: removeObject_undoStack)

lemma cancelNewMapObject_undoStack:
  assumes "cancelNewMapObject tool = Inr tool'"
  shows "undoStack (editedMap tool') = undoStack (editedMap tool)"
  using assms
  by (auto simp add: cancelNewMapObject_def andThen_def
      split: sum.splits dest!: clearNewMapObjectItem_undoStack)

lemma finishNewMapObject_undoStack:
  assumes "finishNewMapObject tool = Inr tool'"
  shows "\<exists>g ob. undoStack (editedMap tool')
                = undoStack (editedMap tool) @ [AddMapObject g ob]"
  using assms
  by (auto simp add: finishNewMapObject_def andThen_def Let_def push_def
      split: option.splits sum.splits
      dest!: clearNewMapObjectItem_undoStack addObject_undoStack)

lemma baseKeepsUndoStack_facts:
  assumes "baseKeepsUndoStack env"
  shows "undoStack (abstractDeactivate env em) = undoStack em"
    and "undoStack (abstractKeyPressed env key em) = undoStack em"
    and "undoStack (abstractMouseMoved env pos control em) = undoStack em"
    and "undoStack (abstractMousePressed env event em) = undoStack em"
  using assms unfolding baseKeepsUndoStack_def by blast+

lemma mousePressed_undoStack:
  assumes "baseKeepsUndoStack env" and "mousePressed env event tool = Inr tool'"
  shows "undoStack (editedMap tool') = undoStack (editedMap tool)"
  using assms
  by (auto simp add: mousePressed_def Let_def baseKeepsUndoStack_facts
      split: if_splits option.splits dest!: startNewMapObject_undoStack)

lemma handle_undoStack:
  assumes b: "baseKeepsUndoStack env" and h: "handle env event tool = Inr tool'"
  shows "undoStack (editedMap tool') = undoStack (editedMap tool)
     \<or> ((event = KeyPressedEvent Key_Enter \<or> event = KeyPressedEvent Key_Return)
        \<and> mNewMapObjectItem tool \<noteq> None
        \<and> (\<exists>g ob. undoStack (editedMap tool')
                    = undoStack (editedMap tool) @ [AddMapObject g ob]))"
proof (cases event)
  case (KeyPressedEvent key)
  with h have k: "keyPressed env key tool = Inr tool'" by simp
  show ?thesis
  proof (cases "(key = Key_Enter \<or> key = Key_Return) \<and> mNewMapObjectItem tool \<noteq> None")
    case True
    with k have "finishNewMapObject tool = Inr tool'" by (simp add: keyPressed_def)
    from finishNewMapObject_undoStack [OF this] True KeyPressedEvent show ?thesis by blast
  next
    case False
    with k b have "undoStack (editedMap tool') = undoStack (editedMap tool)"
      by (auto simp add: keyPressed_def baseKeepsUndoStack_facts
          split: if_splits dest!: cancelNewMapObject_undoStack)
    then show ?thesis by simp
  qed
next
  case (MouseMovedEvent pos control)
  with h b show ?thesis by (auto simp add: mouseMoved_def baseKeepsUndoStack_facts)
next
  case (MousePressedEvent e)
  with h mousePressed_undoStack [OF b] show ?thesis by auto
next
  case (MouseReleasedEvent e)
  with h show ?thesis by (auto simp add: mouseReleased_def)
next
  case DeactivateEvent
  with h b show ?thesis
    by (auto simp add: deactivate_def andThen_def baseKeepsUndoStack_facts
        split: if_splits sum.splits dest!: cancelNewMapObject_undoStack)
qed

lemma example_baseKeepsUndoStack: "baseKeepsUndoStack exampleToolEnvironment"
  by (simp add: baseKeepsUndoStack_def exampleToolEnvironment_def)

text \<open>
  Claim C5.  Starting a session puts the new object into its group at once and leaves
  the undo stack as it is.  Committing the session (the Enter or the Return key) pushes
  exactly one \<^verbatim>\<open>AddMapObject\<close> command for that object and group onto the undo stack
  of the tool's document, and afterwards the object is in its group, the session is over
  and its item is gone from the scene.  No other event changes the undo stack: whenever
  a handler of the tool changes it, the event is the Enter or Return key during a
  session and one \<^verbatim>\<open>AddMapObject\<close> command was pushed (given that the handlers of
  the base class, which the tool falls back to, leave the undo stack alone).
\<close>

theorem commit_creation:
  assumes n: "newObjectFor tool g grp (fst newMapObject)"
    and c: "createNewMapObject env tool = Some newMapObject"
  shows
    "(let session = started pos g grp newMapObject tool;
          result = committed pos g grp newMapObject tool
      in startNewMapObject env pos g tool = Inr session
         \<and> map_option objects (objectGroups (editedMap session) g)
             = Some (objects grp @ [fst newMapObject])
         \<and> undoStack (editedMap session) = undoStack (editedMap tool)
         \<and> finishNewMapObject session = Inr result
         \<and> keyPressed env Key_Enter session = Inr result
         \<and> keyPressed env Key_Return session = Inr result
         \<and> undoStack (editedMap result)
             = undoStack (editedMap tool) @ [AddMapObject g (fst newMapObject)]
         \<and> map_option objects (objectGroups (editedMap result) g)
             = Some (objects grp @ [fst newMapObject])
         \<and> mapObjects (editedMap result) (fst newMapObject) \<noteq> None
         \<and> mNewMapObjectItem result = None
         \<and> sceneItems (editedMap result) = sceneItems (editedMap tool))
     \<and> (\<forall>event before after.
           baseKeepsUndoStack env \<and> handle env event before = Inr after
           \<and> undoStack (editedMap after) \<noteq> undoStack (editedMap before) \<longrightarrow>
           (event = KeyPressedEvent Key_Enter \<or> event = KeyPressedEvent Key_Return)
           \<and> mNewMapObjectItem before \<noteq> None
           \<and> (\<exists>g' ob. undoStack (editedMap after)
                        = undoStack (editedMap before) @ [AddMapObject g' ob]))"
proof (intro conjI allI impI)
  note s = startNewMapObject_started [OF n c, of pos]
  note f = finish_started [OF n, of pos]
  have a: "mNewMapObjectItem (started pos g grp newMapObject tool) \<noteq> None"
    by (simp add: started_def)
  show "let session = started pos g grp newMapObject tool;
            result = committed pos g grp newMapObject tool
        in startNewMapObject env pos g tool = Inr session
           \<and> map_option objects (objectGroups (editedMap session) g)
               = Some (objects grp @ [fst newMapObject])
           \<and> undoStack (editedMap session) = undoStack (editedMap tool)
           \<and> finishNewMapObject session = Inr result
           \<and> keyPressed env Key_Enter session = Inr result
           \<and> keyPressed env Key_Return session = Inr result
           \<and> undoStack (editedMap result)
               = undoStack (editedMap tool) @ [AddMapObject g (fst newMapObject)]
           \<and> map_option objects (objectGroups (editedMap result) g)
               = Some (objects grp @ [fst newMapObject])
           \<and> mapObjects (editedMap result) (fst newMapObject) \<noteq> None
           \<and> mNewMapObjectItem result = None
           \<and> sceneItems (editedMap result) = sceneItems (editedMap tool)"
    unfolding Let_def
    using s f a n
    by (simp add: keyPressed_def)
      (simp add: started_def committed_def newObjectFor_def)
next
  fix event before after
  assume h: "baseKeepsUndoStack env \<and> handle env event before = Inr after
      \<and> undoStack (editedMap after) \<noteq> undoStack (editedMap before)"
  then have b: "baseKeepsUndoStack env" and r: "handle env event before = Inr after"
    and d: "undoStack (editedMap after) \<noteq> undoStack (editedMap before)" by simp_all
  from handle_undoStack [OF b r] d
  show "event = KeyPressedEvent Key_Enter \<or> event = KeyPressedEvent Key_Return"
    and "mNewMapObjectItem before \<noteq> None"
    and "\<exists>g' ob. undoStack (editedMap after)
                  = undoStack (editedMap before) @ [AddMapObject g' ob]"
    by blast+
qed

theorem commit_creation_witness:
  "newObjectFor exampleTool 1 exampleGroup 7
   \<and> baseKeepsUndoStack exampleToolEnvironment
   \<and> startNewMapObject exampleToolEnvironment (96, 96) 1 exampleTool
       = Inr (started (96, 96) 1 exampleGroup exampleObject exampleTool)
   \<and> undoStack (editedMap (started (96, 96) 1 exampleGroup exampleObject exampleTool)) = []
   \<and> keyPressed exampleToolEnvironment Key_Enter
         (started (96, 96) 1 exampleGroup exampleObject exampleTool)
       = Inr (committed (96, 96) 1 exampleGroup exampleObject exampleTool)
   \<and> undoStack (editedMap (committed (96, 96) 1 exampleGroup exampleObject exampleTool))
       = [AddMapObject 1 7]
   \<and> map_option objects
         (objectGroups (editedMap (committed (96, 96) 1 exampleGroup exampleObject exampleTool)) 1)
       = Some [7]"
proof -
  have f: "fst exampleObject = 7" by (simp add: exampleObject_def)
  have u: "undoStack (editedMap exampleTool) = []" "objects exampleGroup = []"
    by (simp_all add: exampleTool_def exampleGroup_def)
  from commit_creation [OF example_newObjectFor example_factory, of "(96, 96)"]
    example_newObjectFor example_baseKeepsUndoStack
  show ?thesis
    unfolding Let_def f u by simp
qed

subsection \<open>Presses that are ignored\<close>

text \<open>
  Claim C6, as the code has it.  A press of the left button while no session is active
  leaves the state as it is when there is no current object group, when the current
  object group is not visible, when the tool creates tile objects and no tile is set, or
  when the factory creates no object.  Whether the group is editable is not looked at:
  in the counterexample the press on a visible group that is not editable starts a
  session.
\<close>

theorem press_ignored:
  assumes "button event = LeftButton" and "mNewMapObjectItem tool = None"
  shows
    "(currentObjectGroup (editedMap tool) = None \<longrightarrow> mousePressed env event tool = Inr tool)
     \<and> (\<forall>g grp. currentObjectGroup (editedMap tool) = Some g
            \<and> objectGroups (editedMap tool) g = Some grp \<and> \<not> isVisible grp \<longrightarrow>
            mousePressed env event tool = Inr tool)
     \<and> (\<forall>g grp. currentObjectGroup (editedMap tool) = Some g
            \<and> objectGroups (editedMap tool) g = Some grp
            \<and> mMode tool = CreateTile \<and> mTile tool = None \<longrightarrow>
            mousePressed env event tool = Inr tool)
     \<and> (\<forall>g grp. currentObjectGroup (editedMap tool) = Some g
            \<and> objectGroups (editedMap tool) g = Some grp
            \<and> createNewMapObject env tool = None \<longrightarrow>
            mousePressed env event tool = Inr tool)"
  using assms
  by (auto simp add: mousePressed_def Let_def startNewMapObject_def)

theorem press_ignored_witness:
  "button examplePress = LeftButton \<and> mNewMapObjectItem exampleTool = None
   \<and> mousePressed exampleToolEnvironment examplePress
       (exampleTool\<lparr>editedMap := (editedMap exampleTool)\<lparr>currentObjectGroup := None\<rparr>\<rparr>)
     = Inr (exampleTool\<lparr>editedMap := (editedMap exampleTool)\<lparr>currentObjectGroup := None\<rparr>\<rparr>)
   \<and> mousePressed exampleToolEnvironment examplePress (exampleTool\<lparr>mMode := CreateTile\<rparr>)
     = Inr (exampleTool\<lparr>mMode := CreateTile\<rparr>)"
proof -
  have b: "button examplePress = LeftButton" by (simp add: examplePress_def)
  have i: "mNewMapObjectItem exampleTool = None" by (simp add: exampleTool_def)
  have i1: "mNewMapObjectItem
      (exampleTool\<lparr>editedMap := (editedMap exampleTool)\<lparr>currentObjectGroup := None\<rparr>\<rparr>) = None"
    and i2: "mNewMapObjectItem (exampleTool\<lparr>mMode := CreateTile\<rparr>) = None"
    using i by simp_all
  from press_ignored [OF b i1, of exampleToolEnvironment]
  have p1: "mousePressed exampleToolEnvironment examplePress
       (exampleTool\<lparr>editedMap := (editedMap exampleTool)\<lparr>currentObjectGroup := None\<rparr>\<rparr>)
     = Inr (exampleTool\<lparr>editedMap := (editedMap exampleTool)\<lparr>currentObjectGroup := None\<rparr>\<rparr>)"
    by simp
  from press_ignored [OF b i2, of exampleToolEnvironment]
  have p2: "mousePressed exampleToolEnvironment examplePress (exampleTool\<lparr>mMode := CreateTile\<rparr>)
     = Inr (exampleTool\<lparr>mMode := CreateTile\<rparr>)"
    by (simp add: exampleTool_def)
  from b i p1 p2 show ?thesis by blast
qed

theorem press_on_uneditable_group_counterexample:
  "button examplePress = LeftButton \<and> mNewMapObjectItem exampleTool = None
   \<and> currentObjectGroup (editedMap exampleTool) = Some 1
   \<and> objectGroups (editedMap exampleTool) 1 = Some exampleGroup
   \<and> isVisible exampleGroup \<and> \<not> isEditable exampleGroup
   \<and> mousePressed exampleToolEnvironment examplePress exampleTool
       = Inr (started (96, 96) 1 exampleGroup exampleObject exampleTool)
   \<and> mNewMapObjectItem (started (96, 96) 1 exampleGroup exampleObject exampleTool)
       = Some \<lparr>mapObject = 7, zValue = 10000\<rparr>"
proof -
  have e: "snapToGrid exampleToolEnvironment" "\<not> snapToFineGrid exampleToolEnvironment"
    "screenToTileCoords exampleToolEnvironment (100, 100) = (25 / 8, 25 / 8)"
    "tileToPixelCoords exampleToolEnvironment (3, 3) = (96, 96)"
    by (simp_all add: exampleToolEnvironment_def)
  have s: "snapTileCoords exampleToolEnvironment False True (25 / 8, 25 / 8) = (3, 3)"
    by (simp add: snapTileCoords_def exampleToolEnvironment_def)
  have p: "mousePressed exampleToolEnvironment examplePress exampleTool
      = startNewMapObject exampleToolEnvironment (96, 96) 1 exampleTool"
    by (simp add: mousePressed_def Let_def examplePress_def exampleTool_def
        exampleGroup_def e s)
  show ?thesis
    unfolding p startNewMapObject_started [OF example_newObjectFor example_factory]
    by (simp add: examplePress_def exampleTool_def exampleGroup_def started_def
        exampleObject_def)
qed

end
